theory Spec2Isabelle
  imports Main "HOL-Library.Sublist"
begin

section \<open>JavaScript values\<close>

text \<open>
  A JavaScript string is a sequence of UTF-16 code units, and \<open>trim\<close>, \<open>length\<close> and
  \<open>===\<close> work on code units. A string is therefore a list of code units (natural
  numbers below 65536); \<open>str\<close> embeds an ASCII literal.
\<close>

type_synonym jsstring = "nat list"

definition str :: "string \<Rightarrow> jsstring" where
  "str s = map of_char s"

text \<open>
  The scalar values a JSON payload can hold at a leaf, plus \<open>undefined\<close> (the value of
  a property that is not there). Of the numbers, the integers: \<open>Num n\<close> is the number
  that the JSON literal \<open>n\<close> is parsed to, which is \<open>n\<close> itself below 2 to the power 53
  and the nearest double beyond.
\<close>

datatype jsval = Undefined | Null | Bool bool | Num int | Str jsstring

text \<open>ToBoolean: what \<open>!v\<close>, \<open>v && x\<close> and \<open>v || x\<close> test.\<close>

fun truthy :: "jsval \<Rightarrow> bool" where
  "truthy Undefined = False"
| "truthy Null = False"
| "truthy (Bool b) = b"
| "truthy (Num n) = (n \<noteq> 0)"
| "truthy (Str s) = (s \<noteq> [])"

text \<open>\<open>a || b\<close> on scalars.\<close>

definition or_else :: "jsval \<Rightarrow> jsval \<Rightarrow> jsval" where
  "or_else a b = (if truthy a then a else b)"

text \<open>
  \<open>String.prototype.trim\<close> removes the code units of WhiteSpace and LineTerminator
  (ECMAScript 12.2, 12.3) from both ends: TAB, LF, VT, FF, CR, SP, NBSP, U+1680,
  U+2000 to U+200A, U+2028, U+2029, U+202F, U+205F, U+3000 and U+FEFF.
\<close>

definition is_white_space :: "nat \<Rightarrow> bool" where
  "is_white_space c =
     (c \<in> set [9, 10, 11, 12, 13, 32, 160, 5760, 8232, 8233, 8239, 8287, 12288, 65279]
      \<or> (8192 \<le> c \<and> c \<le> 8202))"

definition trim :: "jsstring \<Rightarrow> jsstring" where
  "trim s = rev (dropWhile is_white_space (rev (dropWhile is_white_space s)))"

section \<open>The analysis result\<close>

text \<open>
  The payload of a successful call, as the page reads it. Every container is optional:
  \<open>None\<close> stands for a property that is missing or \<open>null\<close> (the page reads
  containers only through \<open>&&\<close> and \<open>?.\<close>, which treat the two alike). Every leaf is
  a scalar, \<open>Undefined\<close> when the property is missing. An object is the list of its
  entries in the order \<open>Object.entries\<close> gives them. A payload in which a container
  has another type than the one declared here (a string in the place of a sequence, a
  \<open>null\<close> among the stations) is outside this model.
\<close>

record geo_data =
  arrondissement :: jsval
  full_address :: jsval

record overview =
  description :: jsval
  three_word_summary :: jsval

record rating =
  score :: jsval

text \<open>\<open>what_locals_say\<close>: a scalar (a string, or missing) or an array of scalars.\<close>

datatype locals_say = Single jsval | Paragraphs "jsval list"

record analysis =
  overview :: "overview option"
  what_locals_say :: locals_say
  ratings :: "(jsstring \<times> rating) list option"

record landmark_time =
  landmark :: jsval
  time :: jsval

record station =
  name :: jsval
  transport_type :: jsval
  lines :: "jsval list option"
  walk_time_minutes :: jsval

record transport =
  connectivity_score :: jsval
  landmark_travel_times :: "landmark_time list option"
  nearby_stations :: "station list option"

record analysis_result =
  geo_data :: "geo_data option"
  analysis :: "analysis option"
  transport :: "transport option"

text \<open>
  \<open>response.data\<close> of a 2xx response, and the value of the \<open>result\<close> slot: a scalar
  (\<open>null\<close> at the start, an empty body) or an object read as an analysis result.
\<close>

datatype payload = Scalar jsval | Report analysis_result

fun payload_truthy :: "payload \<Rightarrow> bool" where
  "payload_truthy (Scalar v) = truthy v"
| "payload_truthy (Report r) = True"

section \<open>The analysis service call (services/api.js)\<close>

text \<open>
  \<open>api.post('/api/analyze', { address })\<close>: the one outbound request of
  \<open>analyzeAddress\<close>, with its path and the address it carries.
\<close>

datatype request = Post jsstring jsstring

text \<open>
  The body of a non-2xx response, \<open>error.response.data\<close>: a scalar (a text body, an empty
  one), or an object given by its own properties. Only the property \<open>error\<close> is ever read.
\<close>

datatype body = BScalar jsval | BObject "(jsstring \<times> jsval) list"

fun body_truthy :: "body \<Rightarrow> bool" where
  "body_truthy (BScalar v) = truthy v"
| "body_truthy (BObject ps) = True"

text \<open>
  How the promise of \<open>api.post\<close> settles. \<open>Fulfilled d\<close>: a 2xx response with
  \<open>response.data = d\<close>. \<open>Rejected r\<close>: the call failed with an error whose
  \<open>error.response?.data\<close> is \<open>r\<close>; \<open>None\<close> when there is no response at all (a
  network failure, the 60 second timeout), \<open>Some b\<close> for a non-2xx response with body
  \<open>b\<close>.
\<close>

datatype post_outcome = Fulfilled payload | Rejected "body option"

definition analyze_fallback :: jsstring where
  "analyze_fallback = str ''Failed to analyze address''"

text \<open>
  \<open>analyzeAddress\<close> is split at its \<open>await\<close>: the request it sends, and what it returns
  (\<open>Inr\<close>) or throws (\<open>Inl\<close>) once the request has settled.
\<close>

definition analyzeAddress_request :: "jsstring \<Rightarrow> request" where
  "analyzeAddress_request a = Post (str ''/api/analyze'') a"

definition analyzeAddress_settled :: "post_outcome \<Rightarrow> body + payload" where
  "analyzeAddress_settled out =
     (case out of
        Fulfilled d \<Rightarrow> Inr d
      | Rejected r \<Rightarrow>
          (let d = (case r of None \<Rightarrow> BScalar Undefined | Some b \<Rightarrow> b)
           in Inl (if body_truthy d then d
                   else BObject [(str ''error'', Str analyze_fallback)])))"

section \<open>The request controller (the state of Home and its handlers)\<close>

text \<open>The four \<open>useState\<close> slots of \<open>Home\<close>.\<close>

record state =
  address :: jsstring
  loading :: bool
  result :: payload
  error :: jsval

definition initial :: state where
  "initial = \<lparr>address = [], loading = False, result = Scalar Null, error = Null\<rparr>"

datatype js_error = TypeError

text \<open>
  \<open>err.error\<close>: reading a property of \<open>undefined\<close> or \<open>null\<close> throws, any other
  scalar has no such property, an object gives its own one.
\<close>

fun get_error :: "body \<Rightarrow> js_error + jsval" where
  "get_error (BScalar Undefined) = Inl TypeError"
| "get_error (BScalar Null) = Inl TypeError"
| "get_error (BScalar v) = Inr Undefined"
| "get_error (BObject ps) =
     Inr (case map_of ps (str ''error'') of None \<Rightarrow> Undefined | Some v \<Rightarrow> v)"

text \<open>
  \<open>handleSubmit\<close> is split at its \<open>await\<close>. The first part runs when the form is
  submitted and returns the new state with the request sent, if any. (It also calls
  \<open>e.preventDefault()\<close>, which acts on the browser's event only.)
\<close>

definition handleSubmit :: "state \<Rightarrow> state \<times> request option" where
  "handleSubmit s =
     (if trim (address s) = [] then (s, None)
      else (s\<lparr>loading := True, error := Null, result := Scalar Null\<rparr>,
            Some (analyzeAddress_request (address s))))"

text \<open>
  The second part runs when the request has settled: \<open>try\<close>, \<open>catch\<close> and \<open>finally\<close>.
  The first component is what escapes \<open>handleSubmit\<close> as a rejection of its promise.
\<close>

definition handleSubmit_settled :: "post_outcome \<Rightarrow> state \<Rightarrow> js_error option \<times> state" where
  "handleSubmit_settled out s =
     (case analyzeAddress_settled out of
        Inr d \<Rightarrow> (None, s\<lparr>result := d, loading := False\<rparr>)
      | Inl err \<Rightarrow>
          (case get_error err of
             Inr e \<Rightarrow> (None, s\<lparr>error := or_else e (Str analyze_fallback), loading := False\<rparr>)
           | Inl x \<Rightarrow> (Some x, s\<lparr>loading := False\<rparr>)))"

text \<open>The \<open>onChange\<close> handler of the input and the \<open>onClick\<close> handler of
  "Search Another Address".\<close>

definition setAddress :: "jsstring \<Rightarrow> state \<Rightarrow> state" where
  "setAddress a s = s\<lparr>address := a\<rparr>"

definition reset :: "state \<Rightarrow> state" where
  "reset s = s\<lparr>result := Scalar Null, address := [], error := Null\<rparr>"

section \<open>Strings the page builds\<close>

text \<open>
  ToString of a scalar, as a template literal \<open>`${v}`\<close> applies it. The decimal digits of
  a natural number are built from the most significant one.
\<close>

fun digits :: "nat \<Rightarrow> jsstring" where
  "digits n = (if n < 10 then [48 + n] else digits (n div 10) @ [48 + n mod 10])"

declare digits.simps [simp del]

text \<open>
  A number is a double. Below 2 to the power 53 every integer is one; beyond, a literal is
  rounded to the nearest double, ties to the even significand, and to \<open>Infinity\<close> from
  \<open>2^1024 - 2^970\<close> on. \<open>bits\<close> is the length of the binary numeral.
\<close>

fun bits :: "nat \<Rightarrow> nat" where
  "bits n = (if n = 0 then 0 else Suc (bits (n div 2)))"

declare bits.simps [simp del]

definition to_double :: "nat \<Rightarrow> nat option" where
  "to_double m =
     (if m < 2 ^ 53 then Some m
      else let e = bits m - 53; q = m div 2 ^ e; r = m mod 2 ^ e; h = 2 ^ (e - 1);
               q' = (if h < r \<or> (r = h \<and> odd q) then q + 1 else q)
           in if 2 ^ 1024 \<le> q' * 2 ^ e then None else Some (q' * 2 ^ e))"

text \<open>
  Number::toString prints the decimal numeral with the fewest significant digits that is
  parsed back to the same double; among several of that length, the one closest to the
  double, and of two equally close the one whose last digit is even (the choice the
  standard recommends and the engines make). \<open>candidate x k\<close> is that numeral with \<open>k\<close>
  significant digits, if there is one: it is the multiple of the \<open>k\<close>-th digit's unit
  just below \<open>x\<close> or the one just above.
\<close>

definition candidate :: "nat \<Rightarrow> nat \<Rightarrow> nat option" where
  "candidate x k =
     (let scale = 10 ^ (length (digits x) - k); lo = (x div scale) * scale; hi = lo + scale;
          lo_ok = (to_double lo = Some x); hi_ok = (to_double hi = Some x)
      in if lo_ok \<and> hi_ok
         then (if x - lo < hi - x \<or> (x - lo = hi - x \<and> even (x div scale)) then Some lo
               else Some hi)
         else if lo_ok then Some lo
         else if hi_ok then Some hi
         else None)"

definition shortest :: "nat \<Rightarrow> nat" where
  "shortest x =
     (case List.find (\<lambda>k. candidate x k \<noteq> None) [1..<Suc (length (digits x))] of
        Some k \<Rightarrow> (case candidate x k of Some c \<Rightarrow> c | None \<Rightarrow> x)
      | None \<Rightarrow> x)"

text \<open>
  The numeral is written out in full up to 21 digits, and from 22 digits on as its
  significant digits, a point after the first, and the exponent.
\<close>

definition strip_zeros :: "jsstring \<Rightarrow> jsstring" where
  "strip_zeros ds = rev (dropWhile (\<lambda>c. c = 48) (rev ds))"

definition format_digits :: "nat \<Rightarrow> jsstring" where
  "format_digits c =
     (let ds = digits c; n = length ds
      in if n \<le> 21 then ds
         else (case strip_zeros ds of
                 [] \<Rightarrow> ds
               | d # rest \<Rightarrow>
                   (if rest = [] then [d] else d # 46 # rest) @ str ''e+'' @ digits (n - 1)))"

definition magnitude_to_string :: "nat \<Rightarrow> jsstring" where
  "magnitude_to_string m =
     (if m < 2 ^ 53 then digits m
      else (case to_double m of
              None \<Rightarrow> str ''Infinity''
            | Some x \<Rightarrow> format_digits (shortest x)))"

definition number_to_string :: "int \<Rightarrow> jsstring" where
  "number_to_string n =
     (if n < 0 then 45 # magnitude_to_string (nat (- n)) else magnitude_to_string (nat n))"

fun to_string :: "jsval \<Rightarrow> jsstring" where
  "to_string Undefined = str ''undefined''"
| "to_string Null = str ''null''"
| "to_string (Bool b) = (if b then str ''true'' else str ''false'')"
| "to_string (Num n) = number_to_string n"
| "to_string (Str s) = s"

text \<open>\<open>Array.prototype.join\<close>: \<open>undefined\<close> and \<open>null\<close> elements give the empty string.\<close>

fun join_item :: "jsval \<Rightarrow> jsstring" where
  "join_item Undefined = []"
| "join_item Null = []"
| "join_item v = to_string v"

fun join :: "jsstring \<Rightarrow> jsval list \<Rightarrow> jsstring" where
  "join sep [] = []"
| "join sep [x] = join_item x"
| "join sep (x # y # ys) = join_item x @ sep @ join sep (y # ys)"

text \<open>\<open>key.replace('_', ' ')\<close> replaces the first occurrence only.\<close>

fun replace_first :: "nat \<Rightarrow> nat \<Rightarrow> jsstring \<Rightarrow> jsstring" where
  "replace_first a b [] = []"
| "replace_first a b (c # cs) = (if c = a then b # cs else c # replace_first a b cs)"

section \<open>The rendered page\<close>

text \<open>
  What \<open>Home\<close> returns: a tree of elements and text. Of the attributes, those that
  only style an element (\<open>className\<close>) or only serve React's reconciliation (\<open>key\<close>)
  are left out; the event handlers are kept, by name.
\<close>

datatype tag = Div | Img | Form | Input | Button | H1 | H2 | H3 | H4 | P | Span

datatype handler = HandleSubmit | SetAddress | PreventBlank | Reset

datatype attr =
    Src jsstring | Alt jsstring | Type jsstring | Value jsstring | Placeholder jsstring
  | Disabled bool | OnSubmit handler | OnChange handler | OnClick handler

datatype node = Text jsstring | Elem tag "attr list" "node list"

text \<open>
  \<open>{v}\<close> as a child: React renders a number and a non-empty string as text, and
  nothing for \<open>undefined\<close>, \<open>null\<close>, a boolean and the empty string.
\<close>

fun child :: "jsval \<Rightarrow> node list" where
  "child Undefined = []"
| "child Null = []"
| "child (Bool b) = []"
| "child (Num n) = [Text (number_to_string n)]"
| "child (Str s) = (if s = [] then [] else [Text s])"

text \<open>\<open>{v && (...)}\<close>: a falsy \<open>v\<close> is itself the child.\<close>

definition and_then :: "jsval \<Rightarrow> node list \<Rightarrow> node list" where
  "and_then v ns = (if truthy v then ns else child v)"

subsection \<open>Blocks of the report\<close>

definition geo_arrondissement :: "analysis_result \<Rightarrow> jsval" where
  "geo_arrondissement r = (case geo_data r of None \<Rightarrow> Undefined | Some g \<Rightarrow> arrondissement g)"

definition geo_full_address :: "analysis_result \<Rightarrow> jsval" where
  "geo_full_address r = (case geo_data r of None \<Rightarrow> Undefined | Some g \<Rightarrow> full_address g)"

definition overview_description :: "analysis \<Rightarrow> jsval" where
  "overview_description a = (case overview a of None \<Rightarrow> Undefined | Some v \<Rightarrow> description v)"

definition overview_summary :: "analysis \<Rightarrow> jsval" where
  "overview_summary a = (case overview a of None \<Rightarrow> Undefined | Some v \<Rightarrow> three_word_summary v)"

text \<open>The arrondissement column (the same in the first and the fourth \<open>Home\<close>).\<close>

definition arrondissement_column :: "analysis_result \<Rightarrow> node" where
  "arrondissement_column r =
     Elem Div []
       (Elem H2 [] [Text (str ''Arrondissement'')] #
        and_then (geo_arrondissement r)
          [Elem Img
             [Src (str ''/arr_numbers/'' @ to_string (geo_arrondissement r) @ str ''.png''),
              Alt (to_string (geo_arrondissement r) @ str ''e arrondissement'')] []])"

text \<open>The paragraphs of \<open>what_locals_say\<close>: the \<open>Array.isArray\<close> test and its two arms.\<close>

fun locals_truthy :: "locals_say \<Rightarrow> bool" where
  "locals_truthy (Single v) = truthy v"
| "locals_truthy (Paragraphs ps) = True"

fun locals_paragraphs :: "locals_say \<Rightarrow> node list" where
  "locals_paragraphs (Paragraphs ps) = map (\<lambda>paragraph. Elem P [] (child paragraph)) ps"
| "locals_paragraphs (Single v) = [Elem P [] (child v)]"

text \<open>A falsy \<open>what_locals_say\<close> is itself the child of \<open>{... && (...)}\<close>.\<close>

fun locals_and_then :: "locals_say \<Rightarrow> node list \<Rightarrow> node list" where
  "locals_and_then (Single v) ns = and_then v ns"
| "locals_and_then (Paragraphs ps) ns = ns"

definition word_of_mouth1 :: "analysis option \<Rightarrow> node list" where
  "word_of_mouth1 ao =
     (case ao of
        None \<Rightarrow> []
      | Some a \<Rightarrow>
          locals_and_then (what_locals_say a)
            [Elem Div []
               [Elem H3 [] [Text (str ''Word of Mouth'')],
                Elem Div [] [Elem Div [] (locals_paragraphs (what_locals_say a))]]])"

definition word_of_mouth4 :: "analysis option \<Rightarrow> node list" where
  "word_of_mouth4 ao =
     (case ao of
        None \<Rightarrow> []
      | Some a \<Rightarrow>
          locals_and_then (what_locals_say a)
            [Elem Div []
               [Elem H3 [] [Text (str ''Word of Mouth'')],
                Elem P [] [Text (str ''What Reddit is saying'')],
                Elem Div [] (locals_paragraphs (what_locals_say a))]])"

text \<open>The ratings grid (the same in the first and the fourth \<open>Home\<close>).\<close>

definition rating_entry :: "jsstring \<times> rating \<Rightarrow> node" where
  "rating_entry kv =
     (case kv of (key, val) \<Rightarrow>
        Elem Div []
          [Elem P [] (child (Str (replace_first 95 32 key))),
           Elem Img
             [Src (str ''/'' @ to_string (score val) @ str ''_5.png''),
              Alt (to_string (score val) @ str '' out of 5'')] []])"

definition ratings_section :: "analysis option \<Rightarrow> node list" where
  "ratings_section ao =
     (case ao of
        None \<Rightarrow> []
      | Some a \<Rightarrow>
          [Elem Div []
             [Elem Div []
                (case ratings a of None \<Rightarrow> [] | Some rs \<Rightarrow> map rating_entry rs)]])"

text \<open>
  The landmark icons of the fourth \<open>Home\<close>. \<open>iconMap\<close> is an object literal, so
  \<open>iconMap[k]\<close> finds its six own properties first and then what every object inherits
  from \<open>Object.prototype\<close>; any other key gives \<open>undefined\<close>. The key is the landmark
  name converted to a string.
\<close>

definition iconMap :: "(jsstring \<times> jsstring) list" where
  "iconMap =
     [(str ''Sacr'' @ [233] @ str ''-C'' @ [339] @ str ''ur'', str ''sacre''),
      (str ''Notre-Dame'', str ''notre''),
      (str ''Eiffel Tower'', str ''eiffel''),
      (str ''Arc de Triomphe'', str ''arc''),
      (str ''Louvre'', str ''louvre''),
      (str ''Champs-'' @ [201] @ str ''lys'' @ [233] @ str ''es'', str ''champs'')]"

definition object_prototype_names :: "jsstring list" where
  "object_prototype_names =
     map str [''constructor'', ''__defineGetter__'', ''__defineSetter__'', ''hasOwnProperty'',
       ''__lookupGetter__'', ''__lookupSetter__'', ''isPrototypeOf'', ''propertyIsEnumerable'',
       ''toString'', ''valueOf'', ''__proto__'', ''toLocaleString'']"

datatype icon = Own jsstring | Inherited jsstring | Missing

definition icon_lookup :: "jsval \<Rightarrow> icon" where
  "icon_lookup v =
     (case map_of iconMap (to_string v) of
        Some i \<Rightarrow> Own i
      | None \<Rightarrow> if to_string v \<in> set object_prototype_names then Inherited (to_string v)
                else Missing)"

text \<open>
  \<open>`${iconName}`\<close>. An inherited property is a built-in function, printed as engines
  print native functions, except \<open>__proto__\<close>, which is the prototype object.
\<close>

fun icon_to_string :: "icon \<Rightarrow> jsstring" where
  "icon_to_string (Own i) = i"
| "icon_to_string Missing = str ''undefined''"
| "icon_to_string (Inherited k) =
     (if k = str ''__proto__'' then str ''[object Object]''
      else str ''function '' @ (if k = str ''constructor'' then str ''Object'' else k)
           @ str ''() { [native code] }'')"

text \<open>\<open>alt={v}\<close>: React writes a string or a number, and leaves the attribute out for
  \<open>undefined\<close>, \<open>null\<close> and a boolean.\<close>

fun alt_attr :: "jsval \<Rightarrow> attr list" where
  "alt_attr (Str s) = [Alt s]"
| "alt_attr (Num n) = [Alt (number_to_string n)]"
| "alt_attr v = []"

definition landmark_entry1 :: "landmark_time \<Rightarrow> node" where
  "landmark_entry1 l =
     Elem Div [] [Elem Span [] (child (landmark l)), Elem Span [] (child (time l))]"

definition landmark_entry4 :: "landmark_time \<Rightarrow> node" where
  "landmark_entry4 l =
     (let iconName = icon_lookup (landmark l); displayName = landmark l
      in Elem Div []
           [Elem P [] (child displayName),
            Elem Img
              (Src (str ''/landmarks/'' @ icon_to_string iconName @ str ''.png'')
               # alt_attr (landmark l)) [],
            Elem P [] (child (time l))])"

definition landmarks_block1 :: "transport \<Rightarrow> node list" where
  "landmarks_block1 t =
     [Elem Div []
        [Elem H3 [] [Text (str ''Travel Times to Landmarks'')],
         Elem Div []
           (case landmark_travel_times t of None \<Rightarrow> [] | Some ls \<Rightarrow> map landmark_entry1 ls)]]"

definition landmarks_block4 :: "transport \<Rightarrow> node list" where
  "landmarks_block4 t =
     (case landmark_travel_times t of
        None \<Rightarrow> []
      | Some ls \<Rightarrow>
          [Elem Div []
             [Elem H3 [] [Text (str ''Travel Times to Landmarks'')],
              Elem P [] [Text (str ''Public transport from your address'')],
              Elem Div [] (map landmark_entry4 ls)]])"

text \<open>The label of a station's lines (the same in the first and the fourth \<open>Home\<close>);
  the bullet is U+2022.\<close>

definition station_lines :: "station \<Rightarrow> node list" where
  "station_lines st =
     (case lines st of
        None \<Rightarrow> []
      | Some ls \<Rightarrow>
          if length ls > 0
          then [Elem Span []
                  (Text ([32, 8226, 32] @ str ''Lines: '') # child (Str (join (str '', '') ls)))]
          else [])"

definition station_body :: "station \<Rightarrow> node list" where
  "station_body st =
     [Elem Div []
        [Elem P [] (child (name st)),
         Elem P [] (child (transport_type st) @ station_lines st)],
      Elem Span [] (child (walk_time_minutes st) @ [Text (str '' min walk'')])]"

definition station_entry1 :: "station \<Rightarrow> node" where
  "station_entry1 st = Elem Div [] [Elem Div [] (station_body st)]"

definition station_entry4 :: "station \<Rightarrow> node" where
  "station_entry4 st = Elem Div [] (station_body st)"

definition stations_block1 :: "transport \<Rightarrow> node list" where
  "stations_block1 t =
     (case nearby_stations t of
        None \<Rightarrow> []
      | Some sts \<Rightarrow>
          if length sts > 0
          then [Elem Div []
                  [Elem H3 [] [Text (str ''Nearby Stations'')],
                   Elem Div [] (map station_entry1 (take 5 sts))]]
          else [])"

definition stations_block4 :: "transport \<Rightarrow> node list" where
  "stations_block4 t =
     (case nearby_stations t of
        None \<Rightarrow> []
      | Some sts \<Rightarrow>
          if length sts > 0
          then [Elem Div []
                  [Elem H3 [] [Text (str ''Nearby Stations'')],
                   Elem P [] [Text (str ''Within walking distance'')],
                   Elem Div [] (map station_entry4 (take 5 sts))]]
          else [])"

definition transport_section1 :: "transport option \<Rightarrow> node list" where
  "transport_section1 topt =
     (case topt of
        None \<Rightarrow> []
      | Some t \<Rightarrow> [Elem Div [] (landmarks_block1 t @ stations_block1 t)])"

definition transport_section4 :: "transport option \<Rightarrow> node list" where
  "transport_section4 topt =
     (case topt of
        None \<Rightarrow> []
      | Some t \<Rightarrow> [Elem Div [] (landmarks_block4 t @ stations_block4 t)])"

definition character1 :: "analysis option \<Rightarrow> node list" where
  "character1 ao =
     (case ao of
        None \<Rightarrow> []
      | Some a \<Rightarrow>
          [Elem Div []
             [Elem H3 [] [Text (str ''Neighborhood Character'')],
              Elem Div [] [Elem P [] (child (overview_description a))],
              Elem P [] (child (overview_summary a))]])"

definition character4 :: "analysis option \<Rightarrow> node list" where
  "character4 ao =
     (case ao of
        None \<Rightarrow> []
      | Some a \<Rightarrow>
          [Elem Div []
             [Elem H3 [] [Text (str ''Neighborhood Character'')],
              Elem P [] (child (overview_description a)),
              Elem P [] (child (overview_summary a))]])"

definition stamp :: node where
  "stamp = Elem Img [Src (str ''/chez_stamp.png''), Alt (str ''Chez-Vous'')] []"

definition reset_button :: node where
  "reset_button =
     Elem Div [] [Elem Button [OnClick Reset] [Text (str ''Search Another Address'')]]"

subsection \<open>The report of the first Home (lines 93 to 236 of the page's source)\<close>

definition report1 :: "analysis_result \<Rightarrow> node" where
  "report1 r =
     Elem Div []
       ([Elem Div [] [stamp],
         Elem Div []
           [arrondissement_column r,
            Elem Div []
              (Elem Div []
                 [Elem P [] [Text (str ''Full address:'')],
                  Elem P [] (child (geo_full_address r))]
               # character1 (analysis r))],
         Elem Div [] (word_of_mouth1 (analysis r))]
        @ ratings_section (analysis r)
        @ transport_section1 (transport r)
        @ [reset_button])"

subsection \<open>The report of the fourth Home (lines 525 to 687)\<close>

definition report4 :: "analysis_result \<Rightarrow> node" where
  "report4 r =
     Elem Div []
       ([Elem Div [] [stamp],
         Elem Div []
           [arrondissement_column r,
            Elem Div []
              (Elem Div []
                 [Elem H3 [] [Text (str ''Full address'')],
                  Elem P [] (child (geo_full_address r))]
               # character4 (analysis r))],
         Elem Div [] []]
        @ word_of_mouth4 (analysis r)
        @ [Elem Div [] []]
        @ ratings_section (analysis r)
        @ [Elem Div [] []]
        @ transport_section4 (transport r)
        @ [reset_button])"

subsection \<open>The first and the fourth Home\<close>

text \<open>
  \<open>{result && (...)}\<close>: a falsy result is itself the child. A truthy scalar result has
  none of the properties the report reads.
\<close>

fun payload_and_then :: "payload \<Rightarrow> node list \<Rightarrow> node list" where
  "payload_and_then (Scalar v) ns = and_then v ns"
| "payload_and_then (Report r) ns = ns"

fun as_result :: "payload \<Rightarrow> analysis_result" where
  "as_result (Report r) = r"
| "as_result (Scalar v) = \<lparr>geo_data = None, analysis = None, transport = None\<rparr>"

definition spinner :: node where
  "spinner =
     Elem Div []
       [Elem Img [Src (str ''/eiffel.gif''), Alt (str ''Loading...'')] [],
        Elem P [] [Text (str ''Analyzing your neighborhood...'')]]"

definition search_form :: "state \<Rightarrow> node" where
  "search_form s =
     Elem Form [OnSubmit HandleSubmit]
       [Elem Div []
          [Elem Input
             [Type (str ''text''), Value (address s), OnChange SetAddress,
              Placeholder (str ''Enter a Paris address...'')] []],
        Elem Button [Type (str ''submit''), OnClick PreventBlank] [Text (str ''Search'')]]"

definition search_area :: "state \<Rightarrow> node list" where
  "search_area s =
     (if \<not> payload_truthy (result s)
      then [Elem Div []
              [Elem Img [Src (str ''/chez_text.png''), Alt (str ''Chez-Vous'')] [],
               if loading s then spinner else search_form s]]
      else [])"

definition error_banner :: "state \<Rightarrow> node list" where
  "error_banner s = and_then (error s) [Elem Div [] (child (error s))]"

definition Home1 :: "state \<Rightarrow> node" where
  "Home1 s =
     Elem Div []
       ((if \<not> payload_truthy (result s) then [stamp] else [])
        @ [Elem Div []
             (search_area s
              @ error_banner s
              @ payload_and_then (result s) [report1 (as_result (result s))])])"

definition Home4 :: "state \<Rightarrow> node" where
  "Home4 s =
     Elem Div []
       ((if \<not> payload_truthy (result s) then [stamp] else [])
        @ [Elem Div []
             (search_area s
              @ error_banner s
              @ payload_and_then (result s) [report4 (as_result (result s))])])"

subsection \<open>The second Home (lines 246 to 378)\<close>

definition rating_line2 :: "jsstring \<times> rating \<Rightarrow> node" where
  "rating_line2 kv =
     (case kv of (key, val) \<Rightarrow>
        Elem Div []
          [Elem Span [] (child (Str (replace_first 95 32 key)) @ [Text (str '': '')]),
           Elem Span [] (child (score val) @ [Text (str ''/5'')])])"

definition landmark_line2 :: "landmark_time \<Rightarrow> node" where
  "landmark_line2 l =
     Elem Div []
       [Elem Span [] (child (landmark l) @ [Text (str '':'')]),
        Elem Span [] (child (time l))]"

definition station_line2 :: "station \<Rightarrow> node" where
  "station_line2 st =
     Elem Div []
       [Elem Span [] (child (name st)),
        Elem Span []
          ([Text (str '' - '')] @ child (walk_time_minutes st) @ [Text (str '' min walk'')])]"

definition transport_section2 :: "transport option \<Rightarrow> node list" where
  "transport_section2 topt =
     (case topt of
        None \<Rightarrow> []
      | Some t \<Rightarrow>
          [Elem Div []
             ([Elem H3 [] [Text (str ''Transport & Connectivity'')],
               Elem Div []
                 [Elem P []
                    [Elem Span [] [Text (str ''Connectivity Score: '')],
                     Elem Span [] (child (connectivity_score t) @ [Text (str ''/5'')])]],
               Elem H4 [] [Text (str ''Travel Times to Landmarks'')],
               Elem Div []
                 (case landmark_travel_times t of
                    None \<Rightarrow> []
                  | Some ls \<Rightarrow> map landmark_line2 ls)]
              @ (case nearby_stations t of
                   None \<Rightarrow> []
                 | Some sts \<Rightarrow>
                     if length sts > 0
                     then [Elem Div []
                             [Elem H4 [] [Text (str ''Nearby Stations'')],
                              Elem Div [] (map station_line2 (take 5 sts))]]
                     else []))])"

definition report2 :: "analysis_result \<Rightarrow> node" where
  "report2 r =
     Elem Div []
       ([Elem H2 [] [Text (str ''Analysis Results'')],
         Elem Div []
           [Elem H3 [] [Text (str ''Location'')],
            Elem P []
              (Text (str ''Arrondissement: '')
               # child (or_else (geo_arrondissement r) (Str (str ''Unknown'')))),
            Elem P [] (child (geo_full_address r))]]
        @ (case analysis r of
             None \<Rightarrow> []
           | Some a \<Rightarrow>
               [Elem Div []
                  ([Elem H3 [] [Text (str ''Overview'')],
                    Elem P [] (child (overview_description a)),
                    Elem P [] (child (overview_summary a)),
                    Elem H3 [] [Text (str ''Ratings'')],
                    Elem Div []
                      (case ratings a of None \<Rightarrow> [] | Some rs \<Rightarrow> map rating_line2 rs)]
                   @ transport_section2 (transport r))]))"

definition Home2 :: "state \<Rightarrow> node" where
  "Home2 s =
     Elem Div []
       [Elem Div []
          ([Elem H1 [] [Text (str ''Chez-Vous'')],
            Elem Form [OnSubmit HandleSubmit]
              [Elem Div []
                 [Elem Input
                    [Type (str ''text''), Value (address s), OnChange SetAddress,
                     Placeholder (str ''Enter a Paris address...''), Disabled (loading s)] []],
               Elem Button
                 [Type (str ''submit''), Disabled (loading s \<or> trim (address s) = [])]
                 [Text (if loading s then str ''Analyzing...''
                        else str ''Analyze Neighborhood'')]],
            Elem P []
              [Text (str ''Try: '' @ [34] @ str ''10 Rue de Rivoli, 75001 Paris'' @ [34]
                     @ str '' or '' @ [34] @ str ''Montmartre'' @ [34])]]
           @ error_banner s
           @ payload_and_then (result s) [report2 (as_result (result s))])]"

section \<open>The session: the page, the user and the service\<close>

text \<open>
  The controls a page offers: its form, input and button elements in document order,
  each with its attributes.
\<close>

fun controls :: "node \<Rightarrow> (tag \<times> attr list) list"
  and controls_list :: "node list \<Rightarrow> (tag \<times> attr list) list" where
  "controls (Text t) = []"
| "controls (Elem t as ns) =
     (if t = Form \<or> t = Input \<or> t = Button then [(t, as)] else []) @ controls_list ns"
| "controls_list [] = []"
| "controls_list (n # ns) = controls n @ controls_list ns"

text \<open>An element of tag \<open>t\<close> with attribute \<open>a\<close> is there and is not disabled.\<close>

definition offered :: "node \<Rightarrow> tag \<Rightarrow> attr \<Rightarrow> bool" where
  "offered n t a = list_ex (\<lambda>c. fst c = t \<and> a \<in> set (snd c) \<and> Disabled True \<notin> set (snd c)) (controls n)"

text \<open>
  The source holds four versions of \<open>Home\<close>. The first, the second and the fourth call
  the analysis service and share \<open>handleSubmit\<close>; the third only logs the address and
  sends nothing, and is left out.
\<close>

datatype variant = First | Second | Fourth

fun render :: "variant \<Rightarrow> state \<Rightarrow> node" where
  "render First s = Home1 s"
| "render Second s = Home2 s"
| "render Fourth s = Home4 s"

text \<open>A session: the state of the page and the requests sent and not yet settled.\<close>

record session =
  ui :: state
  in_flight :: "request list"

definition start :: session where
  "start = \<lparr>ui = initial, in_flight = []\<rparr>"

text \<open>
  What can happen to a session. The user types into the input, presses Enter in it,
  clicks the submit button or clicks "Search Another Address"; the service settles the
  \<open>i\<close>-th request in flight.
\<close>

datatype event = Change jsstring | PressEnter | ClickSubmit | ClickReset | Settle nat post_outcome

text \<open>
  The browser delivers an event only to a control that is in the page and not disabled.
  Enter in the input submits the form through its submit button, so it needs both; a
  click needs the button.
\<close>

fun enabled :: "variant \<Rightarrow> session \<Rightarrow> event \<Rightarrow> bool" where
  "enabled v x (Change a) = offered (render v (ui x)) Input (OnChange SetAddress)"
| "enabled v x PressEnter =
     (offered (render v (ui x)) Form (OnSubmit HandleSubmit)
      \<and> offered (render v (ui x)) Input (Type (str ''text''))
      \<and> offered (render v (ui x)) Button (Type (str ''submit'')))"
| "enabled v x ClickSubmit =
     (offered (render v (ui x)) Form (OnSubmit HandleSubmit)
      \<and> offered (render v (ui x)) Button (Type (str ''submit'')))"
| "enabled v x ClickReset = offered (render v (ui x)) Button (OnClick Reset)"
| "enabled v x (Settle i out) = (i < length (in_flight x))"

text \<open>Submitting the form runs \<open>handleSubmit\<close> and sends its request.\<close>

definition submit :: "session \<Rightarrow> session" where
  "submit x =
     (case handleSubmit (ui x) of
        (s, None) \<Rightarrow> x\<lparr>ui := s\<rparr>
      | (s, Some q) \<Rightarrow> x\<lparr>ui := s, in_flight := in_flight x @ [q]\<rparr>)"

text \<open>
  The effect of an event. The \<open>onClick\<close> of the first and fourth page's button calls
  \<open>e.preventDefault()\<close> on a blank address, and then the form is not submitted.
\<close>

fun fire :: "variant \<Rightarrow> event \<Rightarrow> session \<Rightarrow> session" where
  "fire v (Change a) x = x\<lparr>ui := setAddress a (ui x)\<rparr>"
| "fire v PressEnter x = submit x"
| "fire v ClickSubmit x =
     (if offered (render v (ui x)) Button (OnClick PreventBlank) \<and> trim (address (ui x)) = []
      then x else submit x)"
| "fire v ClickReset x = x\<lparr>ui := reset (ui x)\<rparr>"
| "fire v (Settle i out) x =
     x\<lparr>ui := snd (handleSubmit_settled out (ui x)),
       in_flight := take i (in_flight x) @ drop (Suc i) (in_flight x)\<rparr>"

text \<open>The sessions a user and the service can bring about.\<close>

inductive reachable :: "variant \<Rightarrow> session \<Rightarrow> bool" for v :: variant where
  reachable_start: "reachable v start"
| reachable_fire: "reachable v x \<Longrightarrow> enabled v x e \<Longrightarrow> reachable v (fire v e x)"

text \<open>Running a list of events from a session; \<open>None\<close> when one of them is not enabled.\<close>

fun run :: "variant \<Rightarrow> event list \<Rightarrow> session \<Rightarrow> session option" where
  "run v [] x = Some x"
| "run v (e # es) x = (if enabled v x e then run v es (fire v e x) else None)"


section \<open>What is observed of a page\<close>

text \<open>The \<open>src\<close> of every image, in document order.\<close>

fun srcs :: "attr list \<Rightarrow> jsstring list" where
  "srcs [] = []"
| "srcs (Src u # as) = u # srcs as"
| "srcs (a # as) = srcs as"

fun images :: "node \<Rightarrow> jsstring list"
  and images_list :: "node list \<Rightarrow> jsstring list" where
  "images (Text t) = []"
| "images (Elem t as ns) = (if t = Img then srcs as else []) @ images_list ns"
| "images_list [] = []"
| "images_list (n # ns) = images n @ images_list ns"

text \<open>The visible text, in document order.\<close>

fun texts :: "node \<Rightarrow> jsstring"
  and texts_list :: "node list \<Rightarrow> jsstring" where
  "texts (Text t) = t"
| "texts (Elem t as ns) = texts_list ns"
| "texts_list [] = []"
| "texts_list (n # ns) = texts n @ texts_list ns"

text \<open>The text of every paragraph element, in document order.\<close>

fun paragraphs :: "node \<Rightarrow> jsstring list"
  and paragraphs_list :: "node list \<Rightarrow> jsstring list" where
  "paragraphs (Text t) = []"
| "paragraphs (Elem t as ns) = (if t = P then [texts_list ns] else []) @ paragraphs_list ns"
| "paragraphs_list [] = []"
| "paragraphs_list (n # ns) = paragraphs n @ paragraphs_list ns"

text \<open>The controls of the search form of the first and the fourth page.\<close>

definition form_controls :: "state \<Rightarrow> (tag \<times> attr list) list" where
  "form_controls s =
     [(Form, [OnSubmit HandleSubmit]),
      (Input, [Type (str ''text''), Value (address s), OnChange SetAddress,
               Placeholder (str ''Enter a Paris address...'')]),
      (Button, [Type (str ''submit''), OnClick PreventBlank])]"

text \<open>
  The invariant of a session: while loading, exactly one request is in flight and both
  the result and the error are \<open>null\<close>; otherwise no request is in flight; and the result
  and the error are never both set.
\<close>

definition session_inv :: "session \<Rightarrow> bool" where
  "session_inv x =
     ((if loading (ui x)
       then length (in_flight x) = 1 \<and> result (ui x) = Scalar Null \<and> error (ui x) = Null
       else in_flight x = [])
      \<and> (result (ui x) = Scalar Null \<or> error (ui x) = Null))"

text \<open>A thrown value of the shape \<open>{ error: string }\<close>.\<close>

definition error_string_shape :: "body \<Rightarrow> bool" where
  "error_string_shape b =
     (case b of
        BScalar v \<Rightarrow> False
      | BObject ps \<Rightarrow>
          (case map_of ps (str ''error'') of Some (Str m) \<Rightarrow> True | _ \<Rightarrow> False))"

text \<open>A station for examples: a metro stop on lines 1 and 7, three minutes away.\<close>

definition station_named :: "string \<Rightarrow> station" where
  "station_named n =
     \<lparr>name = Str (str n), transport_type = Str (str ''metro''),
      lines = Some [Str (str ''1''), Str (str ''7'')], walk_time_minutes = Num 3\<rparr>"

section \<open>Strings and whitespace\<close>

lemma str_eq_iff [simp]: "str a = str b \<longleftrightarrow> a = b"
  by (simp add: str_def inj_map_eq_map [OF inj_of_char])

lemma trim_Nil_iff: "trim s = [] \<longleftrightarrow> (\<forall>c\<in>set s. is_white_space c)"
proof
  assume "trim s = []"
  then have a: "dropWhile is_white_space (rev (dropWhile is_white_space s)) = []"
    by (simp add: trim_def)
  show "\<forall>c\<in>set s. is_white_space c"
  proof (cases "dropWhile is_white_space s")
    case Nil
    then show ?thesis by simp
  next
    case (Cons c cs)
    then have "\<not> is_white_space c" using hd_dropWhile [of is_white_space s] by simp
    moreover have "is_white_space c" using a Cons by simp
    ultimately show ?thesis by simp
  qed
next
  assume "\<forall>c\<in>set s. is_white_space c"
  then show "trim s = []" by (auto simp: trim_def dest: set_dropWhileD)
qed

section \<open>Numbers as text\<close>

text \<open>
  Three numbers beyond 2 to the power 53, printed as JavaScript prints them: a literal
  that is not a double is rounded first, the digits are the fewest that identify the
  double, and the exponent appears from 10 to the power 21.
\<close>

lemmas number_to_string_unfold =
  number_to_string_def magnitude_to_string_def to_double_def shortest_def candidate_def
  format_digits_def strip_zeros_def digits.simps bits.simps str_def Let_def

lemma number_to_string_rounds: "number_to_string (2 ^ 53 + 1) = str ''9007199254740992''"
  by (simp add: number_to_string_unfold)

lemma number_to_string_shortest: "number_to_string (2 ^ 64) = str ''18446744073709552000''"
  by (simp add: number_to_string_unfold)

lemma number_to_string_exponent: "number_to_string (10 ^ 21) = str ''1e+21''"
  by (simp add: number_to_string_unfold)

section \<open>The controls each page offers\<close>

lemma controls_list_append [simp]:
  "controls_list (xs @ ys) = controls_list xs @ controls_list ys"
  by (induction xs) auto

lemma controls_child [simp]: "controls_list (child v) = []"
  by (cases v) auto

lemma controls_and_then [simp]:
  "controls_list (and_then v ns) = (if truthy v then controls_list ns else [])"
  by (simp add: and_then_def)

lemma controls_map_Nil:
  "(\<And>x. controls (f x) = []) \<Longrightarrow> controls_list (map f xs) = []"
  by (induction xs) auto

lemma controls_arrondissement_column [simp]: "controls (arrondissement_column r) = []"
  by (simp add: arrondissement_column_def)

lemma controls_locals_paragraphs [simp]: "controls_list (locals_paragraphs l) = []"
  by (cases l) (simp_all add: controls_map_Nil)

lemma controls_locals_and_then [simp]:
  "controls_list (locals_and_then l ns) = (if locals_truthy l then controls_list ns else [])"
  by (cases l) simp_all

lemma controls_word_of_mouth1 [simp]: "controls_list (word_of_mouth1 ao) = []"
  by (simp add: word_of_mouth1_def split: option.splits)

lemma controls_word_of_mouth4 [simp]: "controls_list (word_of_mouth4 ao) = []"
  by (simp add: word_of_mouth4_def split: option.splits)

lemma controls_rating_entry [simp]: "controls (rating_entry kv) = []"
  by (simp add: rating_entry_def split: prod.splits)

lemma controls_ratings_section [simp]: "controls_list (ratings_section ao) = []"
  by (simp add: ratings_section_def controls_map_Nil split: option.splits)

lemma controls_landmark_entry1 [simp]: "controls (landmark_entry1 l) = []"
  by (simp add: landmark_entry1_def)

lemma controls_landmark_entry4 [simp]: "controls (landmark_entry4 l) = []"
  by (simp add: landmark_entry4_def Let_def)

lemma controls_station_lines [simp]: "controls_list (station_lines st) = []"
  by (simp add: station_lines_def split: option.splits)

lemma controls_station_body [simp]: "controls_list (station_body st) = []"
  by (simp add: station_body_def)

lemma controls_station_entry1 [simp]: "controls (station_entry1 st) = []"
  by (simp add: station_entry1_def)

lemma controls_station_entry4 [simp]: "controls (station_entry4 st) = []"
  by (simp add: station_entry4_def)

lemma controls_transport_section1 [simp]: "controls_list (transport_section1 t) = []"
  by (simp add: transport_section1_def landmarks_block1_def stations_block1_def
      controls_map_Nil split: option.splits)

lemma controls_transport_section4 [simp]: "controls_list (transport_section4 t) = []"
  by (simp add: transport_section4_def landmarks_block4_def stations_block4_def
      controls_map_Nil split: option.splits)

lemma controls_character1 [simp]: "controls_list (character1 ao) = []"
  by (simp add: character1_def split: option.splits)

lemma controls_character4 [simp]: "controls_list (character4 ao) = []"
  by (simp add: character4_def split: option.splits)

lemma controls_report1 [simp]: "controls (report1 r) = [(Button, [OnClick Reset])]"
  by (simp add: report1_def stamp_def reset_button_def)

lemma controls_report4 [simp]: "controls (report4 r) = [(Button, [OnClick Reset])]"
  by (simp add: report4_def stamp_def reset_button_def)

lemma controls_transport_section2 [simp]: "controls_list (transport_section2 t) = []"
  by (simp add: transport_section2_def landmark_line2_def station_line2_def
      controls_map_Nil split: option.splits)

lemma controls_rating_line2 [simp]: "controls (rating_line2 kv) = []"
  by (simp add: rating_line2_def split: prod.splits)

lemma controls_report2 [simp]: "controls (report2 r) = []"
  by (simp add: report2_def controls_map_Nil split: option.splits)

lemma controls_payload_and_then [simp]:
  "controls_list (payload_and_then p ns) = (if payload_truthy p then controls_list ns else [])"
  by (cases p) simp_all

lemma controls_error_banner [simp]: "controls_list (error_banner s) = []"
  by (simp add: error_banner_def)

lemma controls_search_area:
  "controls_list (search_area s) =
     (if payload_truthy (result s) \<or> loading s then [] else form_controls s)"
  by (simp add: search_area_def spinner_def search_form_def form_controls_def)

lemma controls_Home1:
  "controls (Home1 s) =
     (if payload_truthy (result s) then [(Button, [OnClick Reset])]
      else if loading s then [] else form_controls s)"
  by (simp add: Home1_def stamp_def controls_search_area)

lemma controls_Home4:
  "controls (Home4 s) =
     (if payload_truthy (result s) then [(Button, [OnClick Reset])]
      else if loading s then [] else form_controls s)"
  by (simp add: Home4_def stamp_def controls_search_area)

lemma controls_Home2:
  "controls (Home2 s) =
     [(Form, [OnSubmit HandleSubmit]),
      (Input, [Type (str ''text''), Value (address s), OnChange SetAddress,
               Placeholder (str ''Enter a Paris address...''), Disabled (loading s)]),
      (Button, [Type (str ''submit''), Disabled (loading s \<or> trim (address s) = [])])]"
  by (simp add: Home2_def)

text \<open>When each event is enabled, read off the controls.\<close>

lemma enabled_First_Fourth:
  assumes "v = First \<or> v = Fourth"
  shows "enabled v x (Change a) \<longleftrightarrow> \<not> payload_truthy (result (ui x)) \<and> \<not> loading (ui x)"
    and "enabled v x PressEnter \<longleftrightarrow> \<not> payload_truthy (result (ui x)) \<and> \<not> loading (ui x)"
    and "enabled v x ClickSubmit \<longleftrightarrow> \<not> payload_truthy (result (ui x)) \<and> \<not> loading (ui x)"
    and "enabled v x ClickReset \<longleftrightarrow> payload_truthy (result (ui x))"
  using assms
  by (auto simp: offered_def controls_Home1 controls_Home4 form_controls_def split: if_splits)

lemma enabled_Second:
  shows "enabled Second x (Change a) \<longleftrightarrow> \<not> loading (ui x)"
    and "enabled Second x PressEnter \<longleftrightarrow> \<not> loading (ui x) \<and> trim (address (ui x)) \<noteq> []"
    and "enabled Second x ClickSubmit \<longleftrightarrow> \<not> loading (ui x) \<and> trim (address (ui x)) \<noteq> []"
    and "enabled Second x ClickReset \<longleftrightarrow> False"
  by (auto simp: offered_def controls_Home2 split: if_splits)

lemma enabled_Change_not_loading: "enabled v x (Change a) \<Longrightarrow> \<not> loading (ui x)"
proof (cases v)
  case Second
  assume "enabled v x (Change a)"
  with Second enabled_Second(1) [of x a] show ?thesis by blast
next
  case First
  assume "enabled v x (Change a)"
  with First enabled_First_Fourth(1) [of v x a] show ?thesis by blast
next
  case Fourth
  assume "enabled v x (Change a)"
  with Fourth enabled_First_Fourth(1) [of v x a] show ?thesis by blast
qed

lemma enabled_PressEnter_not_loading: "enabled v x PressEnter \<Longrightarrow> \<not> loading (ui x)"
proof (cases v)
  case Second
  assume "enabled v x PressEnter"
  with Second enabled_Second(2) [of x] show ?thesis by blast
next
  case First
  assume "enabled v x PressEnter"
  with First enabled_First_Fourth(2) [of v x] show ?thesis by blast
next
  case Fourth
  assume "enabled v x PressEnter"
  with Fourth enabled_First_Fourth(2) [of v x] show ?thesis by blast
qed

lemma enabled_ClickSubmit_not_loading: "enabled v x ClickSubmit \<Longrightarrow> \<not> loading (ui x)"
proof (cases v)
  case Second
  assume "enabled v x ClickSubmit"
  with Second enabled_Second(3) [of x] show ?thesis by blast
next
  case First
  assume "enabled v x ClickSubmit"
  with First enabled_First_Fourth(3) [of v x] show ?thesis by blast
next
  case Fourth
  assume "enabled v x ClickSubmit"
  with Fourth enabled_First_Fourth(3) [of v x] show ?thesis by blast
qed

lemma enabled_ClickReset_result: "enabled v x ClickReset \<Longrightarrow> payload_truthy (result (ui x))"
proof (cases v)
  case Second
  assume "enabled v x ClickReset"
  with Second enabled_Second(4) [of x] show ?thesis by blast
next
  case First
  assume "enabled v x ClickReset"
  with First enabled_First_Fourth(4) [of v x] show ?thesis by blast
next
  case Fourth
  assume "enabled v x ClickReset"
  with Fourth enabled_First_Fourth(4) [of v x] show ?thesis by blast
qed

section \<open>The invariant of a session\<close>

lemma session_inv_submit:
  assumes "session_inv x" and "\<not> loading (ui x)"
  shows "session_inv (submit x)"
  using assms by (auto simp: session_inv_def submit_def handleSubmit_def)

lemma settled_loading [simp]: "loading (snd (handleSubmit_settled out s)) = False"
  by (simp add: handleSubmit_settled_def split: sum.splits)

lemma settled_slots:
  "result s = Scalar Null \<Longrightarrow> error s = Null \<Longrightarrow>
   result (snd (handleSubmit_settled out s)) = Scalar Null
   \<or> error (snd (handleSubmit_settled out s)) = Null"
  by (simp add: handleSubmit_settled_def split: sum.splits)

lemma session_inv_fire:
  assumes "session_inv x" and "enabled v x e"
  shows "session_inv (fire v e x)"
proof (cases e)
  case (Change a)
  with assms enabled_Change_not_loading [of v x a] have "\<not> loading (ui x)" by simp
  with assms(1) Change show ?thesis
    by (simp add: session_inv_def setAddress_def)
next
  case PressEnter
  with assms enabled_PressEnter_not_loading [of v x] have "\<not> loading (ui x)" by simp
  with assms(1) PressEnter show ?thesis
    by (simp add: session_inv_submit)
next
  case ClickSubmit
  with assms enabled_ClickSubmit_not_loading [of v x] have "\<not> loading (ui x)" by simp
  with assms(1) ClickSubmit show ?thesis
    by (simp add: session_inv_submit)
next
  case ClickReset
  with assms enabled_ClickReset_result [of v x] have "payload_truthy (result (ui x))" by simp
  with assms(1) have "\<not> loading (ui x)" "in_flight x = []"
    by (auto simp: session_inv_def split: if_splits)
  with ClickReset show ?thesis
    by (simp add: session_inv_def reset_def)
next
  case (Settle i out)
  with assms have a: "i < length (in_flight x)" by simp
  with assms(1) have b: "length (in_flight x) = 1"
    "result (ui x) = Scalar Null" "error (ui x) = Null"
    by (auto simp: session_inv_def split: if_splits)
  with a have "i = 0" by simp
  with b have c: "take i (in_flight x) @ drop (Suc i) (in_flight x) = []" by simp
  from settled_slots [OF b(2) b(3), of out] c Settle show ?thesis
    by (simp add: session_inv_def)
qed

lemma reachable_session_inv: "reachable v x \<Longrightarrow> session_inv x"
proof (induction rule: reachable.induct)
  case reachable_start
  show ?case by (simp add: session_inv_def start_def initial_def)
next
  case (reachable_fire x e)
  from reachable_fire.IH reachable_fire.hyps(2) show ?case by (rule session_inv_fire)
qed

lemma run_reachable: "reachable v x \<Longrightarrow> run v es x = Some y \<Longrightarrow> reachable v y"
proof (induction es arbitrary: x)
  case Nil
  then show ?case by simp
next
  case (Cons e es)
  from Cons.prems(2) have en: "enabled v x e" and r: "run v es (fire v e x) = Some y"
    by (simp_all split: if_splits)
  from Cons.prems(1) en have "reachable v (fire v e x)" by (rule reachable_fire)
  then show ?case using r by (rule Cons.IH)
qed

section \<open>Blank addresses\<close>

text \<open>
  Claim C5. When the address consists of whitespace only (or is empty), submitting is a
  no-op: \<open>handleSubmit\<close> returns the state as it was and sends no request, so pressing
  Enter or clicking the submit button leaves the session, with its requests in flight,
  unchanged, and the page rendered afterwards is the page rendered before: no message
  appears.
\<close>

theorem blank_submit_is_noop:
  assumes "\<forall>c\<in>set (address (ui x)). is_white_space c"
  shows "handleSubmit (ui x) = (ui x, None)
         \<and> fire v PressEnter x = x \<and> fire v ClickSubmit x = x
         \<and> render v (ui (fire v PressEnter x)) = render v (ui x)"
proof -
  from assms have "trim (address (ui x)) = []" by (simp add: trim_Nil_iff)
  then show ?thesis by (simp add: handleSubmit_def submit_def)
qed

theorem blank_submit_is_noop_witness:
  "list_all is_white_space [32, 9, 160, 32]
   \<and> handleSubmit (initial\<lparr>address := [32, 9, 160, 32]\<rparr>)
       = (initial\<lparr>address := [32, 9, 160, 32]\<rparr>, None)
   \<and> fire Fourth PressEnter \<lparr>ui = initial\<lparr>address := [32, 9, 160, 32]\<rparr>, in_flight = []\<rparr>
       = \<lparr>ui = initial\<lparr>address := [32, 9, 160, 32]\<rparr>, in_flight = []\<rparr>"
proof -
  have h: "\<forall>c\<in>set (address (ui \<lparr>ui = initial\<lparr>address := [32, 9, 160, 32]\<rparr>, in_flight = []\<rparr>)). is_white_space c"
    by (simp add: is_white_space_def)
  from h blank_submit_is_noop [OF h, of Fourth] show ?thesis by simp
qed

section \<open>Sessions used as examples\<close>

lemma nonblank_x: "trim (str ''x'') \<noteq> []"
  by (simp add: trim_def str_def is_white_space_def)

lemma truthy_or_else_fallback: "truthy (or_else e (Str analyze_fallback))"
  by (simp add: or_else_def analyze_fallback_def str_def)

lemma get_error_thrown:
  "analyzeAddress_settled (Rejected r) = Inl b \<Longrightarrow> \<exists>e. get_error b = Inr e"
  by (cases r; cases b rule: get_error.cases)
    (auto simp: analyzeAddress_settled_def Let_def split: if_splits)

text \<open>On the second page: type an address and press Enter. The request is in flight.\<close>

lemma reachable_loading_x:
  "reachable Second
     \<lparr>ui = \<lparr>address = str ''x'', loading = True, result = Scalar Null, error = Null\<rparr>,
      in_flight = [Post (str ''/api/analyze'') (str ''x'')]\<rparr>"
proof -
  have "run Second [Change (str ''x''), PressEnter] start =
    Some \<lparr>ui = \<lparr>address = str ''x'', loading = True, result = Scalar Null, error = Null\<rparr>,
      in_flight = [Post (str ''/api/analyze'') (str ''x'')]\<rparr>"
    by (simp add: enabled_Second start_def initial_def setAddress_def submit_def
        handleSubmit_def analyzeAddress_request_def nonblank_x del: enabled.simps)
  with reachable_start [of Second] show ?thesis by (rule run_reachable)
qed

text \<open>On the fourth page: type an address, press Enter, and the request times out.\<close>

lemma reachable_failed_x:
  "reachable Fourth
     \<lparr>ui = \<lparr>address = str ''x'', loading = False, result = Scalar Null,
             error = Str analyze_fallback\<rparr>,
      in_flight = []\<rparr>"
proof -
  have "run Fourth [Change (str ''x''), PressEnter, Settle 0 (Rejected None)] start =
    Some \<lparr>ui = \<lparr>address = str ''x'', loading = False, result = Scalar Null,
             error = Str analyze_fallback\<rparr>,
      in_flight = []\<rparr>"
    by (simp add: enabled_First_Fourth start_def initial_def setAddress_def submit_def
        handleSubmit_def analyzeAddress_request_def nonblank_x handleSubmit_settled_def
        analyzeAddress_settled_def or_else_def
        del: enabled.simps(1-4))
  with reachable_start [of Fourth] show ?thesis by (rule run_reachable)
qed

section \<open>One request at a time\<close>

text \<open>
  Claim C1. In every session a user and the service can bring about, on each of the
  three pages, at most one request is in flight, and while \<open>loading\<close> is true a submit
  cannot send a second one: the page offers no control to the user at all. Enter in the
  input, the submit button, typing and the reset button are all unavailable (the form
  is not rendered on the first and fourth page, its input and button are disabled on
  the second), and the one thing that can happen, the request settling, takes the
  request out of flight.
\<close>

theorem at_most_one_in_flight:
  assumes "reachable v x"
  shows "length (in_flight x) \<le> 1
         \<and> (loading (ui x) \<longrightarrow>
              \<not> enabled v x PressEnter \<and> \<not> enabled v x ClickSubmit
              \<and> (\<forall>a. \<not> enabled v x (Change a)) \<and> \<not> enabled v x ClickReset)
         \<and> (\<forall>e. loading (ui x) \<and> enabled v x e \<longrightarrow> in_flight (fire v e x) = [])"
proof -
  from assms have inv: "session_inv x" by (rule reachable_session_inv)
  then have a: "length (in_flight x) \<le> 1"
    by (simp add: session_inv_def split: if_splits)
  have b: "\<not> enabled v x ClickReset" if "loading (ui x)"
  proof
    assume "enabled v x ClickReset"
    then have "payload_truthy (result (ui x))" by (rule enabled_ClickReset_result)
    with inv that show False by (simp add: session_inv_def)
  qed
  have c: "in_flight (fire v e x) = []" if l: "loading (ui x)" and en: "enabled v x e" for e
  proof (cases e)
    case (Change a)
    with l en enabled_Change_not_loading [of v x a] show ?thesis by simp
  next
    case PressEnter
    with l en enabled_PressEnter_not_loading [of v x] show ?thesis by simp
  next
    case ClickSubmit
    with l en enabled_ClickSubmit_not_loading [of v x] show ?thesis by simp
  next
    case ClickReset
    with l en b show ?thesis by simp
  next
    case (Settle i out)
    from inv l have "length (in_flight x) = 1" by (simp add: session_inv_def)
    moreover from en Settle have "i < length (in_flight x)" by simp
    ultimately show ?thesis using Settle by simp
  qed
  from a b c show ?thesis
    using enabled_PressEnter_not_loading [of v x] enabled_ClickSubmit_not_loading [of v x]
      enabled_Change_not_loading [of v x]
    by blast
qed

theorem at_most_one_in_flight_witness:
  "length (in_flight
     \<lparr>ui = \<lparr>address = str ''x'', loading = True, result = Scalar Null, error = Null\<rparr>,
      in_flight = [Post (str ''/api/analyze'') (str ''x'')]\<rparr>) \<le> 1
   \<and> \<not> enabled Second
     \<lparr>ui = \<lparr>address = str ''x'', loading = True, result = Scalar Null, error = Null\<rparr>,
      in_flight = [Post (str ''/api/analyze'') (str ''x'')]\<rparr> PressEnter"
proof -
  note t = at_most_one_in_flight [OF reachable_loading_x]
  have "loading (ui
     \<lparr>ui = \<lparr>address = str ''x'', loading = True, result = Scalar Null, error = Null\<rparr>,
      in_flight = [Post (str ''/api/analyze'') (str ''x'')]\<rparr>)"
    by simp
  with t show ?thesis by blast
qed

section \<open>Result and error\<close>

text \<open>
  Claim C10. In every session a user and the service can bring about, the result and
  the error are never both set, so the error banner and the report never appear
  together. The steps that keep it so: a submission with a non-blank address clears
  both; a success stores the result and leaves the error; a failure stores a truthy
  error and leaves the result; reset clears both.
\<close>

theorem result_and_error_exclusive:
  assumes "reachable v x"
  shows "(result (ui x) = Scalar Null \<or> error (ui x) = Null)
         \<and> \<not> (payload_truthy (result (ui x)) \<and> truthy (error (ui x)))
         \<and> (error_banner (ui x) = [] \<or> payload_and_then (result (ui x)) ns = [])
         \<and> (trim (address s) \<noteq> [] \<longrightarrow>
              result (fst (handleSubmit s)) = Scalar Null \<and> error (fst (handleSubmit s)) = Null)
         \<and> result (snd (handleSubmit_settled (Fulfilled d) s)) = d
         \<and> error (snd (handleSubmit_settled (Fulfilled d) s)) = error s
         \<and> result (snd (handleSubmit_settled (Rejected r) s)) = result s
         \<and> truthy (error (snd (handleSubmit_settled (Rejected r) s)))
         \<and> result (reset s) = Scalar Null \<and> error (reset s) = Null"
proof -
  from assms have "session_inv x" by (rule reachable_session_inv)
  then have a: "result (ui x) = Scalar Null \<or> error (ui x) = Null"
    by (simp add: session_inv_def)
  then have b: "\<not> (payload_truthy (result (ui x)) \<and> truthy (error (ui x)))" by auto
  from a have c: "error_banner (ui x) = [] \<or> payload_and_then (result (ui x)) ns = []"
    by (auto simp: error_banner_def and_then_def)
  have d: "trim (address s) \<noteq> [] \<longrightarrow>
      result (fst (handleSubmit s)) = Scalar Null \<and> error (fst (handleSubmit s)) = Null"
    by (simp add: handleSubmit_def)
  have e: "result (snd (handleSubmit_settled (Fulfilled d) s)) = d
      \<and> error (snd (handleSubmit_settled (Fulfilled d) s)) = error s"
    by (simp add: handleSubmit_settled_def analyzeAddress_settled_def)
  obtain b' where t: "analyzeAddress_settled (Rejected r) = Inl b'"
    by (simp add: analyzeAddress_settled_def Let_def)
  then obtain e' where g: "get_error b' = Inr e'" using get_error_thrown by blast
  from t g have f: "result (snd (handleSubmit_settled (Rejected r) s)) = result s
      \<and> truthy (error (snd (handleSubmit_settled (Rejected r) s)))"
    by (simp add: handleSubmit_settled_def truthy_or_else_fallback)
  have h: "result (reset s) = Scalar Null \<and> error (reset s) = Null"
    by (simp add: reset_def)
  from a b c d e f h show ?thesis by blast
qed

theorem result_and_error_exclusive_witness:
  "result (ui \<lparr>ui = \<lparr>address = str ''x'', loading = False, result = Scalar Null,
             error = Str analyze_fallback\<rparr>, in_flight = []\<rparr>) = Scalar Null
   \<and> result (fst (handleSubmit (setAddress (str ''x'') initial))) = Scalar Null"
proof -
  note t = result_and_error_exclusive [OF reachable_failed_x,
      where s = "setAddress (str ''x'') initial"]
  have "trim (address (setAddress (str ''x'') initial)) \<noteq> []"
    by (simp add: setAddress_def nonblank_x)
  with t show ?thesis by simp
qed

section \<open>Failed calls\<close>

lemma settled_rejected_None:
  "handleSubmit_settled (Rejected None) s
     = (None, s\<lparr>error := Str analyze_fallback, loading := False\<rparr>)"
  by (simp add: handleSubmit_settled_def analyzeAddress_settled_def or_else_def)

lemma settled_rejected_scalar:
  "handleSubmit_settled (Rejected (Some (BScalar v))) s
     = (None, s\<lparr>error := Str analyze_fallback, loading := False\<rparr>)"
  by (cases v) (simp_all add: handleSubmit_settled_def analyzeAddress_settled_def or_else_def)

lemma settled_rejected_object:
  "handleSubmit_settled (Rejected (Some (BObject ps))) s
     = (None, s\<lparr>error := (case map_of ps (str ''error'') of
                              None \<Rightarrow> Str analyze_fallback
                            | Some e \<Rightarrow> if truthy e then e else Str analyze_fallback),
                 loading := False\<rparr>)"
  by (simp add: handleSubmit_settled_def analyzeAddress_settled_def or_else_def
      split: option.splits)

text \<open>
  Claim C2, as amended. When the call fails, \<open>handleSubmit\<close> never rejects: it ends
  with \<open>loading\<close> false, the result and the address as they were, and a truthy error.
  The error is the \<open>error\<close> property of the response body when the body is an object
  that has a truthy one, and otherwise (no response at all, as on a network failure or
  a timeout; a body that is not an object; an object without a truthy \<open>error\<close>) the
  message "Failed to analyze address". What \<open>analyzeAddress\<close> throws is the response
  body itself whenever that is truthy, whatever its shape, and
  \<open>{ error: 'Failed to analyze address' }\<close> otherwise.
\<close>

theorem failed_call_sets_message:
  "(let s' = snd (handleSubmit_settled (Rejected r) s) in
      fst (handleSubmit_settled (Rejected r) s) = None
      \<and> loading s' = False \<and> result s' = result s \<and> address s' = address s
      \<and> truthy (error s')
      \<and> (\<forall>ps e. r = Some (BObject ps) \<and> map_of ps (str ''error'') = Some e \<and> truthy e
            \<longrightarrow> error s' = e)
      \<and> ((\<forall>ps e. r = Some (BObject ps) \<and> map_of ps (str ''error'') = Some e
             \<longrightarrow> \<not> truthy e)
           \<longrightarrow> error s' = Str (str ''Failed to analyze address'')))
   \<and> (\<forall>b. r = Some b \<and> body_truthy b \<longrightarrow> analyzeAddress_settled (Rejected r) = Inl b)
   \<and> ((\<forall>b. r = Some b \<longrightarrow> \<not> body_truthy b)
        \<longrightarrow> analyzeAddress_settled (Rejected r)
            = Inl (BObject [(str ''error'', Str (str ''Failed to analyze address''))]))"
proof -
  have thrown: "(\<forall>b. r = Some b \<and> body_truthy b \<longrightarrow> analyzeAddress_settled (Rejected r) = Inl b)
   \<and> ((\<forall>b. r = Some b \<longrightarrow> \<not> body_truthy b)
        \<longrightarrow> analyzeAddress_settled (Rejected r)
            = Inl (BObject [(str ''error'', Str (str ''Failed to analyze address''))]))"
    by (cases r) (simp_all add: analyzeAddress_settled_def analyze_fallback_def)
  have fb: "truthy (Str analyze_fallback)" by (simp add: analyze_fallback_def str_def)
  show ?thesis
  proof (cases r)
    case None
    with thrown fb show ?thesis
      by (simp add: settled_rejected_None analyze_fallback_def)
  next
    case (Some b)
    show ?thesis
    proof (cases b)
      case (BScalar v)
      with Some thrown fb show ?thesis
        by (simp add: settled_rejected_scalar analyze_fallback_def)
    next
      case (BObject ps)
      with Some thrown fb show ?thesis
        by (cases "map_of ps (str ''error'')")
          (simp_all add: settled_rejected_object analyze_fallback_def)
    qed
  qed
qed

theorem failed_call_sets_message_witness:
  "error (snd (handleSubmit_settled
       (Rejected (Some (BObject [(str ''error'', Str (str ''Address not found''))])))
       (initial\<lparr>address := str ''x'', loading := True\<rparr>)))
     = Str (str ''Address not found'')
   \<and> error (snd (handleSubmit_settled (Rejected None)
       (initial\<lparr>address := str ''x'', loading := True\<rparr>)))
     = Str (str ''Failed to analyze address'')"
proof -
  have a: "map_of [(str ''error'', Str (str ''Address not found''))] (str ''error'')
             = Some (Str (str ''Address not found''))
           \<and> truthy (Str (str ''Address not found''))"
    by (simp add: str_def)
  from a failed_call_sets_message
    [of "Some (BObject [(str ''error'', Str (str ''Address not found''))])"
      "initial\<lparr>address := str ''x'', loading := True\<rparr>"]
  have "error (snd (handleSubmit_settled
       (Rejected (Some (BObject [(str ''error'', Str (str ''Address not found''))])))
       (initial\<lparr>address := str ''x'', loading := True\<rparr>)))
     = Str (str ''Address not found'')"
    by (simp add: Let_def)
  moreover from failed_call_sets_message
    [of None "initial\<lparr>address := str ''x'', loading := True\<rparr>"]
  have "error (snd (handleSubmit_settled (Rejected None)
       (initial\<lparr>address := str ''x'', loading := True\<rparr>)))
     = Str (str ''Failed to analyze address'')"
    by (simp add: Let_def)
  ultimately show ?thesis by simp
qed

text \<open>
  Claim C2 as stated fails where it says that every failure is normalized to the shape
  \<open>{ error: string }\<close>: a non-2xx response with a text body is thrown as that text,
  and an \<open>error\<close> property that is a number is thrown, and stored, as the number.
\<close>

theorem thrown_body_not_normalized:
  "analyzeAddress_settled (Rejected (Some (BScalar (Str (str ''Bad Gateway'')))))
     = Inl (BScalar (Str (str ''Bad Gateway'')))
   \<and> \<not> error_string_shape (BScalar (Str (str ''Bad Gateway'')))
   \<and> analyzeAddress_settled (Rejected (Some (BObject [(str ''error'', Num 502)])))
     = Inl (BObject [(str ''error'', Num 502)])
   \<and> \<not> error_string_shape (BObject [(str ''error'', Num 502)])
   \<and> error (snd (handleSubmit_settled (Rejected (Some (BObject [(str ''error'', Num 502)])))
        initial)) = Num 502"
  by (simp add: analyzeAddress_settled_def error_string_shape_def handleSubmit_settled_def
      or_else_def str_def)

section \<open>Reset\<close>

text \<open>On the fourth page: type an address, press Enter, and the service answers.\<close>

lemma reachable_succeeded_x:
  "reachable Fourth
     \<lparr>ui = \<lparr>address = str ''x'', loading = False,
             result = Report \<lparr>geo_data = None, analysis = None, transport = None\<rparr>,
             error = Null\<rparr>,
      in_flight = []\<rparr>"
proof -
  have "run Fourth [Change (str ''x''), PressEnter,
      Settle 0 (Fulfilled (Report \<lparr>geo_data = None, analysis = None, transport = None\<rparr>))]
      start =
    Some \<lparr>ui = \<lparr>address = str ''x'', loading = False,
             result = Report \<lparr>geo_data = None, analysis = None, transport = None\<rparr>,
             error = Null\<rparr>,
      in_flight = []\<rparr>"
    by (simp add: enabled_First_Fourth start_def initial_def setAddress_def submit_def
        handleSubmit_def analyzeAddress_request_def nonblank_x handleSubmit_settled_def
        analyzeAddress_settled_def
        del: enabled.simps(1-4))
  with reachable_start [of Fourth] show ?thesis by (rule run_reachable)
qed

text \<open>
  Claim C9, as amended. \<open>reset\<close> sets the result and the error to \<open>null\<close> and the
  address to the empty string, and leaves \<open>loading\<close> as it is. On the first and fourth
  page the reset button is offered exactly when a result is shown; in a reachable
  session that shows a result, reset is the only event that can happen, and it brings
  the session back to its start. After a failure no result is shown: there reset is
  not offered, and the search form is, so that submitting again is what leaves the
  failed state.
\<close>

theorem reset_returns_to_start:
  "reset s = \<lparr>address = [], loading = loading s, result = Scalar Null, error = Null\<rparr>
   \<and> ((v = First \<or> v = Fourth) \<and> reachable v x \<and> payload_truthy (result (ui x)) \<longrightarrow>
        enabled v x ClickReset \<and> fire v ClickReset x = start
        \<and> (\<forall>e. enabled v x e \<longrightarrow> e = ClickReset))
   \<and> ((v = First \<or> v = Fourth) \<and> \<not> payload_truthy (result (ui x)) \<longrightarrow>
        \<not> enabled v x ClickReset)
   \<and> ((v = First \<or> v = Fourth) \<and> \<not> payload_truthy (result (ui x)) \<and> \<not> loading (ui x) \<longrightarrow>
        enabled v x PressEnter)"
proof -
  have a: "reset s = \<lparr>address = [], loading = loading s, result = Scalar Null, error = Null\<rparr>"
    by (cases s) (simp add: reset_def)
  have b: "enabled v x ClickReset \<and> fire v ClickReset x = start
        \<and> (\<forall>e. enabled v x e \<longrightarrow> e = ClickReset)"
    if v: "v = First \<or> v = Fourth" and r: "reachable v x"
      and p: "payload_truthy (result (ui x))"
  proof -
    from r have inv: "session_inv x" by (rule reachable_session_inv)
    with p have nl: "\<not> loading (ui x)" and nf: "in_flight x = []"
      by (auto simp: session_inv_def split: if_splits)
    from v p have en: "enabled v x ClickReset" by (simp only: enabled_First_Fourth(4))
    from nl nf have "fire v ClickReset x = start"
      by (cases x; cases "ui x") (simp add: reset_def start_def initial_def)
    moreover have "e = ClickReset" if "enabled v x e" for e
    proof (cases e)
      case (Change a)
      with that v p enabled_First_Fourth(1) [of v x a] show ?thesis by blast
    next
      case PressEnter
      with that v p enabled_First_Fourth(2) [of v x] show ?thesis by blast
    next
      case ClickSubmit
      with that v p enabled_First_Fourth(3) [of v x] show ?thesis by blast
    next
      case ClickReset
      then show ?thesis .
    next
      case (Settle i out)
      with that nf show ?thesis by simp
    qed
    ultimately show ?thesis using en by blast
  qed
  from a b enabled_First_Fourth(4) [of v x] enabled_First_Fourth(2) [of v x]
  show ?thesis by blast
qed

theorem reset_returns_to_start_witness:
  "enabled Fourth
     \<lparr>ui = \<lparr>address = str ''x'', loading = False,
             result = Report \<lparr>geo_data = None, analysis = None, transport = None\<rparr>,
             error = Null\<rparr>,
      in_flight = []\<rparr> ClickReset
   \<and> fire Fourth ClickReset
     \<lparr>ui = \<lparr>address = str ''x'', loading = False,
             result = Report \<lparr>geo_data = None, analysis = None, transport = None\<rparr>,
             error = Null\<rparr>,
      in_flight = []\<rparr> = start"
proof -
  have "payload_truthy (result (ui
     \<lparr>ui = \<lparr>address = str ''x'', loading = False,
             result = Report \<lparr>geo_data = None, analysis = None, transport = None\<rparr>,
             error = Null\<rparr>,
      in_flight = []\<rparr>))"
    by simp
  with reachable_succeeded_x reset_returns_to_start [of _ Fourth
     "\<lparr>ui = \<lparr>address = str ''x'', loading = False,
             result = Report \<lparr>geo_data = None, analysis = None, transport = None\<rparr>,
             error = Null\<rparr>,
      in_flight = []\<rparr>"]
  show ?thesis by blast
qed

text \<open>
  Claim C9 as stated fails where it says that reset is the only way out of a failure:
  after a call has timed out the reset button is not there, and pressing Enter sends
  the request again.
\<close>

theorem resubmit_leaves_failed:
  "run Fourth [Change (str ''x''), PressEnter, Settle 0 (Rejected None)] start
     = Some \<lparr>ui = \<lparr>address = str ''x'', loading = False, result = Scalar Null,
                    error = Str (str ''Failed to analyze address'')\<rparr>,
             in_flight = []\<rparr>
   \<and> run Fourth [Change (str ''x''), PressEnter, Settle 0 (Rejected None), ClickReset] start
     = None
   \<and> run Fourth [Change (str ''x''), PressEnter, Settle 0 (Rejected None), PressEnter] start
     = Some \<lparr>ui = \<lparr>address = str ''x'', loading = True, result = Scalar Null, error = Null\<rparr>,
             in_flight = [Post (str ''/api/analyze'') (str ''x'')]\<rparr>"
  by (simp add: enabled_First_Fourth start_def initial_def setAddress_def submit_def
      handleSubmit_def analyzeAddress_request_def nonblank_x handleSubmit_settled_def
      analyzeAddress_settled_def or_else_def analyze_fallback_def
      del: enabled.simps(1-4))


section \<open>Images and text of the blocks\<close>

lemma images_list_append [simp]: "images_list (xs @ ys) = images_list xs @ images_list ys"
  by (induction xs) auto

lemma texts_list_append [simp]: "texts_list (xs @ ys) = texts_list xs @ texts_list ys"
  by (induction xs) auto

lemma paragraphs_list_append [simp]:
  "paragraphs_list (xs @ ys) = paragraphs_list xs @ paragraphs_list ys"
  by (induction xs) auto

lemma images_child [simp]: "images_list (child v) = []"
  by (cases v) auto

lemma paragraphs_child [simp]: "paragraphs_list (child v) = []"
  by (cases v) auto

lemma texts_child_Str [simp]: "texts_list (child (Str s)) = s"
  by simp

lemma images_list_map: "images_list (map f xs) = concat (map (\<lambda>x. images (f x)) xs)"
  by (induction xs) auto

lemma paragraphs_list_map:
  "paragraphs_list (map f xs) = concat (map (\<lambda>x. paragraphs (f x)) xs)"
  by (induction xs) auto

lemma digits_small: "n < 10 \<Longrightarrow> digits n = [48 + n]"
  by (simp add: digits.simps)

lemma number_to_string_small:
  "0 \<le> n \<Longrightarrow> n < 2 ^ 53 \<Longrightarrow> number_to_string n = digits (nat n)"
  by (simp add: number_to_string_def magnitude_to_string_def nat_less_iff)

lemma images_rating_entry:
  "images (rating_entry kv) = [str ''/'' @ to_string (score (snd kv)) @ str ''_5.png'']"
  by (cases kv) (simp add: rating_entry_def)

section \<open>Ratings\<close>

text \<open>
  Claim C3, as amended. The ratings grid (inside a wrapper that is rendered whenever
  \<open>analysis\<close> is there) shows one image per entry of \<open>ratings\<close>, in the order of the
  entries, and none when \<open>ratings\<close> is missing; the image of an entry is
  \<open>/<score>_5.png\<close>, built from whatever the score is, with no check of its range. A
  score from 1 to 5 therefore gives one of the five assets \<open>/1_5.png\<close> to
  \<open>/5_5.png\<close>, 1 and 5 included.
\<close>

theorem rating_images:
  "images_list (ratings_section (Some a))
     = (case ratings a of
          None \<Rightarrow> []
        | Some rs \<Rightarrow> map (\<lambda>kv. str ''/'' @ to_string (score (snd kv)) @ str ''_5.png'') rs)
   \<and> ratings_section None = []
   \<and> (1 \<le> n \<and> n \<le> 5 \<longrightarrow>
        images (rating_entry (k, \<lparr>score = Num n\<rparr>)) = [str ''/'' @ [48 + nat n] @ str ''_5.png'']
        \<and> images (rating_entry (k, \<lparr>score = Num n\<rparr>))
            \<in> set (map (\<lambda>u. [str u])
                 [''/1_5.png'', ''/2_5.png'', ''/3_5.png'', ''/4_5.png'', ''/5_5.png'']))"
proof -
  have a: "images_list (ratings_section (Some a))
     = (case ratings a of
          None \<Rightarrow> []
        | Some rs \<Rightarrow> map (\<lambda>kv. str ''/'' @ to_string (score (snd kv)) @ str ''_5.png'') rs)"
    by (simp add: ratings_section_def images_list_map images_rating_entry
        split: option.splits)
  have b: "ratings_section None = []" by (simp add: ratings_section_def)
  have c: "images (rating_entry (k, \<lparr>score = Num n\<rparr>)) = [str ''/'' @ [48 + nat n] @ str ''_5.png'']
        \<and> images (rating_entry (k, \<lparr>score = Num n\<rparr>))
            \<in> set (map (\<lambda>u. [str u])
                 [''/1_5.png'', ''/2_5.png'', ''/3_5.png'', ''/4_5.png'', ''/5_5.png''])"
    if "1 \<le> n \<and> n \<le> 5"
  proof -
    from that have "n = 1 \<or> n = 2 \<or> n = 3 \<or> n = 4 \<or> n = 5" by arith
    then show ?thesis
      by (auto simp: images_rating_entry number_to_string_small digits_small str_def)
  qed
  from a b c show ?thesis by blast
qed

theorem rating_images_witness:
  "images (rating_entry (str ''safety'', \<lparr>score = Num 4\<rparr>)) = [str ''/4_5.png'']"
proof -
  have "(1::int) \<le> 4 \<and> (4::int) \<le> 5" by simp
  with rating_images [of _ 4 "str ''safety''"]
  have "images (rating_entry (str ''safety'', \<lparr>score = Num 4\<rparr>))
          = [str ''/'' @ [48 + nat 4] @ str ''_5.png'']"
    by blast
  then show ?thesis by (simp add: str_def)
qed

text \<open>
  Claim C3 as stated fails where it says that a score outside 1 to 5 is flagged: the
  scores 6 and 0 are rendered like any other, as the images \<open>/6_5.png\<close> and
  \<open>/0_5.png\<close>. And with an empty \<open>ratings\<close> the wrapper of the grid is still
  rendered, empty.
\<close>

theorem rating_out_of_range_rendered:
  "images_list (ratings_section (Some \<lparr>overview = None, what_locals_say = Single Undefined,
       ratings = Some [(str ''safety'', \<lparr>score = Num 6\<rparr>),
                       (str ''nightlife'', \<lparr>score = Num 0\<rparr>)]\<rparr>))
     = [str ''/6_5.png'', str ''/0_5.png'']
   \<and> ratings_section (Some \<lparr>overview = None, what_locals_say = Single Undefined,
       ratings = Some []\<rparr>)
     = [Elem Div [] [Elem Div [] []]]"
  by (simp add: ratings_section_def rating_entry_def number_to_string_small digits_small str_def)

section \<open>Location\<close>

lemma images_arrondissement_column:
  "images (arrondissement_column r)
     = (if truthy (geo_arrondissement r)
        then [str ''/arr_numbers/'' @ to_string (geo_arrondissement r) @ str ''.png'']
        else [])"
  by (simp add: arrondissement_column_def and_then_def)

lemma texts_report1: "\<exists>rest. texts (report1 r) = str ''Arrondissement'' @ rest"
  by (simp add: report1_def stamp_def arrondissement_column_def)

lemma texts_report4: "\<exists>rest. texts (report4 r) = str ''Arrondissement'' @ rest"
  by (simp add: report4_def stamp_def arrondissement_column_def)

text \<open>
  Claim C4, as amended. The arrondissement image is shown exactly when the
  arrondissement is truthy, with the source \<open>/arr_numbers/<value>.png\<close> built from
  whatever the value is, with no check of its range: a value from 1 to 20 selects the
  asset named by its decimal digits, and no image is shown when \<open>geo_data\<close> or the
  arrondissement is missing. The location block itself is part of every report: the
  text of the report begins with its heading "Arrondissement", whatever the result
  holds.
\<close>

theorem arrondissement_image:
  "images (arrondissement_column r)
     = (if truthy (geo_arrondissement r)
        then [str ''/arr_numbers/'' @ to_string (geo_arrondissement r) @ str ''.png'']
        else [])
   \<and> (geo_arrondissement r = Num n \<and> 1 \<le> n \<and> n \<le> 20 \<longrightarrow>
        images (arrondissement_column r)
          = [str ''/arr_numbers/'' @ digits (nat n) @ str ''.png''])
   \<and> (geo_data r = None \<longrightarrow> images (arrondissement_column r) = [])
   \<and> prefix (str ''Arrondissement'') (texts (report1 r))
   \<and> prefix (str ''Arrondissement'') (texts (report4 r))"
proof -
  have "images (arrondissement_column r)
          = [str ''/arr_numbers/'' @ digits (nat n) @ str ''.png'']"
    if "geo_arrondissement r = Num n \<and> 1 \<le> n \<and> n \<le> 20"
    using that by (simp add: images_arrondissement_column number_to_string_small)
  moreover have "images (arrondissement_column r) = []" if "geo_data r = None"
    using that by (simp add: images_arrondissement_column geo_arrondissement_def)
  moreover have "prefix (str ''Arrondissement'') (texts (report1 r))"
    using texts_report1 [of r] by (auto simp: prefix_def)
  moreover have "prefix (str ''Arrondissement'') (texts (report4 r))"
    using texts_report4 [of r] by (auto simp: prefix_def)
  ultimately show ?thesis using images_arrondissement_column [of r] by blast
qed

theorem arrondissement_image_witness:
  "images (arrondissement_column
     \<lparr>geo_data = Some \<lparr>arrondissement = Num 11, full_address = Str (str ''Paris'')\<rparr>,
      analysis = None, transport = None\<rparr>)
   = [str ''/arr_numbers/11.png'']"
proof -
  have "geo_arrondissement
     \<lparr>geo_data = Some \<lparr>arrondissement = Num 11, full_address = Str (str ''Paris'')\<rparr>,
      analysis = None, transport = None\<rparr> = Num 11 \<and> (1::int) \<le> 11 \<and> (11::int) \<le> 20"
    by (simp add: geo_arrondissement_def)
  with arrondissement_image [of 
     "\<lparr>geo_data = Some \<lparr>arrondissement = Num 11, full_address = Str (str ''Paris'')\<rparr>,
      analysis = None, transport = None\<rparr>" 11]
  have "images (arrondissement_column
     \<lparr>geo_data = Some \<lparr>arrondissement = Num 11, full_address = Str (str ''Paris'')\<rparr>,
      analysis = None, transport = None\<rparr>)
   = [str ''/arr_numbers/'' @ digits (nat 11) @ str ''.png'']"
    by blast
  then show ?thesis by (simp add: digits.simps str_def)
qed

text \<open>
  Claim C4 as stated fails where it says that no asset is shown for a value outside
  1 to 20: the value 21 shows the image \<open>/arr_numbers/21.png\<close>. And a result without
  \<open>geo_data\<close> still renders the headings of the location block.
\<close>

theorem arrondissement_out_of_range_shown:
  "images (arrondissement_column
     \<lparr>geo_data = Some \<lparr>arrondissement = Num 21, full_address = Undefined\<rparr>,
      analysis = None, transport = None\<rparr>)
   = [str ''/arr_numbers/21.png'']
   \<and> texts (report4 \<lparr>geo_data = None, analysis = None, transport = None\<rparr>)
   = str ''ArrondissementFull addressSearch Another Address''"
  by (simp add: arrondissement_column_def and_then_def geo_arrondissement_def
      geo_full_address_def number_to_string_small digits.simps report4_def stamp_def
      character4_def word_of_mouth4_def ratings_section_def transport_section4_def
      reset_button_def str_def)


section \<open>Word of mouth\<close>

lemma paragraphs_locals_strings:
  "paragraphs_list (locals_paragraphs (Paragraphs (map Str ps))) = ps"
  by (induction ps) simp_all

text \<open>
  Claim C6, as amended. The word-of-mouth section is rendered when \<open>analysis\<close> is there
  and \<open>what_locals_say\<close> is truthy: any sequence, or a non-empty string. A sequence
  of strings gives one paragraph per element, in order; a non-empty string gives one
  paragraph; and a non-empty string renders exactly as the one-element sequence that
  holds it. A missing value and the empty string render nothing.
\<close>

theorem word_of_mouth_shapes:
  "(what_locals_say a = Paragraphs (map Str ps) \<longrightarrow>
      paragraphs_list (word_of_mouth1 (Some a)) = ps
      \<and> paragraphs_list (word_of_mouth4 (Some a)) = str ''What Reddit is saying'' # ps)
   \<and> (what_locals_say a = Single (Str s) \<and> s \<noteq> [] \<longrightarrow>
      paragraphs_list (word_of_mouth1 (Some a)) = [s]
      \<and> paragraphs_list (word_of_mouth4 (Some a)) = [str ''What Reddit is saying'', s])
   \<and> (s \<noteq> [] \<longrightarrow>
      word_of_mouth1 (Some (a\<lparr>what_locals_say := Single (Str s)\<rparr>))
        = word_of_mouth1 (Some (a\<lparr>what_locals_say := Paragraphs [Str s]\<rparr>))
      \<and> word_of_mouth4 (Some (a\<lparr>what_locals_say := Single (Str s)\<rparr>))
        = word_of_mouth4 (Some (a\<lparr>what_locals_say := Paragraphs [Str s]\<rparr>)))
   \<and> (what_locals_say a = Single (Str []) \<or> what_locals_say a = Single Undefined \<longrightarrow>
      word_of_mouth1 (Some a) = [] \<and> word_of_mouth4 (Some a) = [])
   \<and> word_of_mouth1 None = [] \<and> word_of_mouth4 None = []"
proof -
  have a: "paragraphs_list (word_of_mouth1 (Some a)) = ps
      \<and> paragraphs_list (word_of_mouth4 (Some a)) = str ''What Reddit is saying'' # ps"
    if "what_locals_say a = Paragraphs (map Str ps)"
    using that paragraphs_locals_strings [of ps]
    by (simp add: word_of_mouth1_def word_of_mouth4_def)
  have b: "paragraphs_list (word_of_mouth1 (Some a)) = [s]
      \<and> paragraphs_list (word_of_mouth4 (Some a)) = [str ''What Reddit is saying'', s]"
    if "what_locals_say a = Single (Str s) \<and> s \<noteq> []"
    using that by (simp add: word_of_mouth1_def word_of_mouth4_def and_then_def)
  have c: "word_of_mouth1 (Some (a\<lparr>what_locals_say := Single (Str s)\<rparr>))
        = word_of_mouth1 (Some (a\<lparr>what_locals_say := Paragraphs [Str s]\<rparr>))
      \<and> word_of_mouth4 (Some (a\<lparr>what_locals_say := Single (Str s)\<rparr>))
        = word_of_mouth4 (Some (a\<lparr>what_locals_say := Paragraphs [Str s]\<rparr>))"
    if "s \<noteq> []"
    using that by (simp add: word_of_mouth1_def word_of_mouth4_def and_then_def)
  have d: "word_of_mouth1 (Some a) = [] \<and> word_of_mouth4 (Some a) = []"
    if "what_locals_say a = Single (Str []) \<or> what_locals_say a = Single Undefined"
    using that by (auto simp: word_of_mouth1_def word_of_mouth4_def and_then_def)
  have e: "word_of_mouth1 None = [] \<and> word_of_mouth4 None = []"
    by (simp add: word_of_mouth1_def word_of_mouth4_def)
  from a b c d e show ?thesis by blast
qed

theorem word_of_mouth_shapes_witness:
  "paragraphs_list (word_of_mouth4 (Some \<lparr>overview = None,
       what_locals_say = Paragraphs (map Str [str ''Great'', str ''area'']),
       ratings = None\<rparr>))
     = [str ''What Reddit is saying'', str ''Great'', str ''area'']
   \<and> word_of_mouth4 (Some (\<lparr>overview = None, what_locals_say = Single Undefined,
         ratings = None\<rparr>\<lparr>what_locals_say := Single (Str (str ''Great area''))\<rparr>))
     = word_of_mouth4 (Some (\<lparr>overview = None, what_locals_say = Single Undefined,
         ratings = None\<rparr>\<lparr>what_locals_say := Paragraphs [Str (str ''Great area'')]\<rparr>))"
proof -
  have a: "what_locals_say \<lparr>overview = None,
       what_locals_say = Paragraphs (map Str [str ''Great'', str ''area'']),
       ratings = None\<rparr> = Paragraphs (map Str [str ''Great'', str ''area''])"
    by simp
  have b: "str ''Great area'' \<noteq> []" by (simp add: str_def)
  from a word_of_mouth_shapes [of "\<lparr>overview = None,
       what_locals_say = Paragraphs (map Str [str ''Great'', str ''area'']),
       ratings = None\<rparr>" "[str ''Great'', str ''area'']"]
  have "paragraphs_list (word_of_mouth4 (Some \<lparr>overview = None,
       what_locals_say = Paragraphs (map Str [str ''Great'', str ''area'']),
       ratings = None\<rparr>))
     = [str ''What Reddit is saying'', str ''Great'', str ''area'']"
    by blast
  moreover from b word_of_mouth_shapes [of "\<lparr>overview = None, what_locals_say = Single Undefined,
         ratings = None\<rparr>" _ "str ''Great area''"]
  have "word_of_mouth4 (Some (\<lparr>overview = None, what_locals_say = Single Undefined,
         ratings = None\<rparr>\<lparr>what_locals_say := Single (Str (str ''Great area''))\<rparr>))
     = word_of_mouth4 (Some (\<lparr>overview = None, what_locals_say = Single Undefined,
         ratings = None\<rparr>\<lparr>what_locals_say := Paragraphs [Str (str ''Great area'')]\<rparr>))"
    by blast
  ultimately show ?thesis by blast
qed

text \<open>
  Claim C6 as stated fails for the empty string: it is present and the section is not
  rendered, while the one-element sequence holding it renders the heading and an empty
  paragraph, so the two do not show the same text.
\<close>

theorem empty_string_not_rendered:
  "word_of_mouth4 (Some \<lparr>overview = None, what_locals_say = Single (Str []), ratings = None\<rparr>)
     = []
   \<and> texts_list (word_of_mouth4 (Some \<lparr>overview = None,
        what_locals_say = Paragraphs [Str []], ratings = None\<rparr>))
     = str ''Word of MouthWhat Reddit is saying''
   \<and> paragraphs_list (word_of_mouth1 (Some \<lparr>overview = None,
        what_locals_say = Paragraphs [Str []], ratings = None\<rparr>))
     = [[]]
   \<and> paragraphs_list (word_of_mouth1 (Some \<lparr>overview = None,
        what_locals_say = Single (Str []), ratings = None\<rparr>))
     = []"
  by (simp add: word_of_mouth4_def word_of_mouth1_def and_then_def str_def)

section \<open>Where the blocks sit in the page\<close>

lemma texts_list_map: "texts_list (map f xs) = concat (map (\<lambda>x. texts (f x)) xs)"
  by (induction xs) auto

lemma images_and_then [simp]:
  "images_list (and_then v ns) = (if truthy v then images_list ns else [])"
  by (simp add: and_then_def)

lemma images_locals_paragraphs [simp]: "images_list (locals_paragraphs l) = []"
  by (cases l) (simp_all add: images_list_map)

lemma images_locals_and_then [simp]:
  "images_list (locals_and_then l ns) = (if locals_truthy l then images_list ns else [])"
  by (cases l) simp_all

lemma images_word_of_mouth1 [simp]: "images_list (word_of_mouth1 ao) = []"
  by (simp add: word_of_mouth1_def split: option.splits)

lemma images_word_of_mouth4 [simp]: "images_list (word_of_mouth4 ao) = []"
  by (simp add: word_of_mouth4_def split: option.splits)

lemma images_character1 [simp]: "images_list (character1 ao) = []"
  by (simp add: character1_def split: option.splits)

lemma images_character4 [simp]: "images_list (character4 ao) = []"
  by (simp add: character4_def split: option.splits)

lemma images_station_lines [simp]: "images_list (station_lines st) = []"
  by (simp add: station_lines_def split: option.splits)

lemma images_station_entry1 [simp]: "images (station_entry1 st) = []"
  by (simp add: station_entry1_def station_body_def)

lemma images_station_entry4 [simp]: "images (station_entry4 st) = []"
  by (simp add: station_entry4_def station_body_def)

lemma images_stations_block1 [simp]: "images_list (stations_block1 t) = []"
  by (simp add: stations_block1_def images_list_map split: option.splits)

lemma images_stations_block4 [simp]: "images_list (stations_block4 t) = []"
  by (simp add: stations_block4_def images_list_map split: option.splits)

lemma images_error_banner [simp]: "images_list (error_banner s) = []"
  by (simp add: error_banner_def)

lemma texts_report1_split:
  "texts (report1 r) =
     texts (arrondissement_column r) @ str ''Full address:''
     @ texts_list (child (geo_full_address r)) @ texts_list (character1 (analysis r))
     @ texts_list (word_of_mouth1 (analysis r)) @ texts_list (ratings_section (analysis r))
     @ texts_list (transport_section1 (transport r)) @ str ''Search Another Address''"
  by (simp add: report1_def stamp_def reset_button_def)

lemma texts_report4_split:
  "texts (report4 r) =
     texts (arrondissement_column r) @ str ''Full address''
     @ texts_list (child (geo_full_address r)) @ texts_list (character4 (analysis r))
     @ texts_list (word_of_mouth4 (analysis r)) @ texts_list (ratings_section (analysis r))
     @ texts_list (transport_section4 (transport r)) @ str ''Search Another Address''"
  by (simp add: report4_def stamp_def reset_button_def)

lemma texts_Home1_report:
  "result s = Report r \<Longrightarrow> texts (Home1 s) = texts_list (error_banner s) @ texts (report1 r)"
  by (simp add: Home1_def search_area_def)

lemma texts_Home4_report:
  "result s = Report r \<Longrightarrow> texts (Home4 s) = texts_list (error_banner s) @ texts (report4 r)"
  by (simp add: Home4_def search_area_def)

lemma images_report1_split:
  "images (report1 r) =
     str ''/chez_stamp.png'' # images (arrondissement_column r)
     @ images_list (ratings_section (analysis r))
     @ images_list (transport_section1 (transport r))"
  by (simp add: report1_def stamp_def reset_button_def)

lemma images_report4_split:
  "images (report4 r) =
     str ''/chez_stamp.png'' # images (arrondissement_column r)
     @ images_list (ratings_section (analysis r))
     @ images_list (transport_section4 (transport r))"
  by (simp add: report4_def stamp_def reset_button_def)

lemma images_Home1_report: "result s = Report r \<Longrightarrow> images (Home1 s) = images (report1 r)"
  by (simp add: Home1_def search_area_def)

lemma images_Home4_report: "result s = Report r \<Longrightarrow> images (Home4 s) = images (report4 r)"
  by (simp add: Home4_def search_area_def)

section \<open>Nearby stations\<close>

lemma join_strings:
  "join sep (map Str (l # ls)) = l @ concat (map (\<lambda>m. sep @ m) ls)"
  by (induction ls arbitrary: l) simp_all

lemma paragraphs_station_lines [simp]: "paragraphs_list (station_lines st) = []"
  by (simp add: station_lines_def split: option.splits)

lemma texts_station_body:
  "texts_list (station_body st) =
     texts_list (child (name st)) @ texts_list (child (transport_type st))
     @ texts_list (station_lines st) @ texts_list (child (walk_time_minutes st))
     @ str '' min walk''"
  by (simp add: station_body_def)

lemma paragraphs_station_body:
  "paragraphs_list (station_body st) =
     [texts_list (child (name st)),
      texts_list (child (transport_type st)) @ texts_list (station_lines st)]"
  by (simp add: station_body_def)

lemma stations_in_Home1:
  assumes "result s = Report r" and "transport r = Some t"
  shows "suffix (texts_list (stations_block1 t) @ str ''Search Another Address'')
           (texts (Home1 s))"
proof -
  from assms have "texts (Home1 s) =
      (texts_list (error_banner s) @ texts (arrondissement_column r) @ str ''Full address:''
       @ texts_list (child (geo_full_address r)) @ texts_list (character1 (analysis r))
       @ texts_list (word_of_mouth1 (analysis r)) @ texts_list (ratings_section (analysis r))
       @ texts_list (landmarks_block1 t))
      @ (texts_list (stations_block1 t) @ str ''Search Another Address'')"
    by (simp add: texts_Home1_report texts_report1_split transport_section1_def)
  then show ?thesis by (rule suffixI)
qed

lemma stations_in_Home4:
  assumes "result s = Report r" and "transport r = Some t"
  shows "suffix (texts_list (stations_block4 t) @ str ''Search Another Address'')
           (texts (Home4 s))"
proof -
  from assms have "texts (Home4 s) =
      (texts_list (error_banner s) @ texts (arrondissement_column r) @ str ''Full address''
       @ texts_list (child (geo_full_address r)) @ texts_list (character4 (analysis r))
       @ texts_list (word_of_mouth4 (analysis r)) @ texts_list (ratings_section (analysis r))
       @ texts_list (landmarks_block4 t))
      @ (texts_list (stations_block4 t) @ str ''Search Another Address'')"
    by (simp add: texts_Home4_report texts_report4_split transport_section4_def)
  then show ?thesis by (rule suffixI)
qed

text \<open>
  Claim C7. When the result's \<open>nearby_stations\<close> is present and not empty, the first and
  the fourth page end, before the reset button, with the stations block, and the block
  holds one entry for each of the first five stations, in their order: min(5, length)
  entries. An entry shows the station's name, its transport type, the label of its
  lines and its walking time, and the name and the type with the label are its two
  paragraphs. When \<open>lines\<close> is a non-empty sequence the label is the bullet, "Lines: "
  and the lines joined into one string, each line after the first behind a comma and a
  space; when \<open>lines\<close> is missing or empty there is no label.
\<close>

theorem nearby_stations_first_five:
  assumes "result s = Report r" and "transport r = Some t"
    and "nearby_stations t = Some sts" and "sts \<noteq> []"
  shows "stations_block1 t
           = [Elem Div []
                [Elem H3 [] [Text (str ''Nearby Stations'')],
                 Elem Div [] (map station_entry1 (take 5 sts))]]
         \<and> stations_block4 t
           = [Elem Div []
                [Elem H3 [] [Text (str ''Nearby Stations'')],
                 Elem P [] [Text (str ''Within walking distance'')],
                 Elem Div [] (map station_entry4 (take 5 sts))]]
         \<and> length (map station_entry1 (take 5 sts)) = min 5 (length sts)
         \<and> length (map station_entry4 (take 5 sts)) = min 5 (length sts)
         \<and> (lines st = Some ls \<and> ls \<noteq> [] \<longrightarrow>
              texts_list (station_lines st)
                = [32, 8226, 32] @ str ''Lines: '' @ join (str '', '') ls)
         \<and> join (str '', '') (map Str (l # ms)) = l @ concat (map (\<lambda>m. str '', '' @ m) ms)
         \<and> (lines st = None \<or> lines st = Some [] \<longrightarrow> station_lines st = [])
         \<and> texts (station_entry1 st)
             = texts_list (child (name st)) @ texts_list (child (transport_type st))
               @ texts_list (station_lines st) @ texts_list (child (walk_time_minutes st))
               @ str '' min walk''
         \<and> texts (station_entry4 st) = texts (station_entry1 st)
         \<and> paragraphs (station_entry1 st)
             = [texts_list (child (name st)),
                texts_list (child (transport_type st)) @ texts_list (station_lines st)]
         \<and> paragraphs (station_entry4 st) = paragraphs (station_entry1 st)
         \<and> texts_list (stations_block1 t)
             = str ''Nearby Stations''
               @ concat (map (\<lambda>st. texts (station_entry1 st)) (take 5 sts))
         \<and> texts_list (stations_block4 t)
             = str ''Nearby Stations'' @ str ''Within walking distance''
               @ concat (map (\<lambda>st. texts (station_entry4 st)) (take 5 sts))
         \<and> paragraphs_list (stations_block1 t)
             = concat (map (\<lambda>st. paragraphs (station_entry1 st)) (take 5 sts))
         \<and> paragraphs_list (stations_block4 t)
             = str ''Within walking distance''
               # concat (map (\<lambda>st. paragraphs (station_entry4 st)) (take 5 sts))
         \<and> suffix (texts_list (stations_block1 t) @ str ''Search Another Address'')
              (texts (Home1 s))
         \<and> suffix (texts_list (stations_block4 t) @ str ''Search Another Address'')
              (texts (Home4 s))"
proof -
  from assms(3,4) have a: "stations_block1 t
           = [Elem Div []
                [Elem H3 [] [Text (str ''Nearby Stations'')],
                 Elem Div [] (map station_entry1 (take 5 sts))]]"
    by (simp add: stations_block1_def)
  from assms(3,4) have b: "stations_block4 t
           = [Elem Div []
                [Elem H3 [] [Text (str ''Nearby Stations'')],
                 Elem P [] [Text (str ''Within walking distance'')],
                 Elem Div [] (map station_entry4 (take 5 sts))]]"
    by (simp add: stations_block4_def)
  have c: "length (map station_entry1 (take 5 sts)) = min 5 (length sts)"
    "length (map station_entry4 (take 5 sts)) = min 5 (length sts)"
    by (simp_all add: min_def)
  have d: "texts_list (station_lines st)
                = [32, 8226, 32] @ str ''Lines: '' @ join (str '', '') ls"
    if "lines st = Some ls \<and> ls \<noteq> []"
    using that by (simp add: station_lines_def)
  have e: "station_lines st = []" if "lines st = None \<or> lines st = Some []"
    using that by (auto simp: station_lines_def)
  have f: "texts (station_entry1 st)
             = texts_list (child (name st)) @ texts_list (child (transport_type st))
               @ texts_list (station_lines st) @ texts_list (child (walk_time_minutes st))
               @ str '' min walk''"
    "texts (station_entry4 st) = texts (station_entry1 st)"
    by (simp_all add: station_entry1_def station_entry4_def texts_station_body)
  have g: "paragraphs (station_entry1 st)
             = [texts_list (child (name st)),
                texts_list (child (transport_type st)) @ texts_list (station_lines st)]"
    "paragraphs (station_entry4 st) = paragraphs (station_entry1 st)"
    by (simp_all add: station_entry1_def station_entry4_def paragraphs_station_body)
  have h: "texts_list (stations_block1 t)
             = str ''Nearby Stations''
               @ concat (map (\<lambda>st. texts (station_entry1 st)) (take 5 sts))"
    "texts_list (stations_block4 t)
             = str ''Nearby Stations'' @ str ''Within walking distance''
               @ concat (map (\<lambda>st. texts (station_entry4 st)) (take 5 sts))"
    by (simp_all add: a b texts_list_map)
  have i: "paragraphs_list (stations_block1 t)
             = concat (map (\<lambda>st. paragraphs (station_entry1 st)) (take 5 sts))"
    "paragraphs_list (stations_block4 t)
             = str ''Within walking distance''
               # concat (map (\<lambda>st. paragraphs (station_entry4 st)) (take 5 sts))"
    by (simp_all add: a b paragraphs_list_map)
  note j = stations_in_Home1 [OF assms(1,2)] stations_in_Home4 [OF assms(1,2)]
  from a b c d e f g h i j join_strings [of "str '', ''" l ms] show ?thesis by blast
qed

theorem nearby_stations_first_five_witness:
  "stations_block4 \<lparr>connectivity_score = Undefined, landmark_travel_times = None,
       nearby_stations = Some (map station_named
         [''A'', ''B'', ''C'', ''D'', ''E'', ''F'', ''G'', ''H''])\<rparr>
     = [Elem Div []
          [Elem H3 [] [Text (str ''Nearby Stations'')],
           Elem P [] [Text (str ''Within walking distance'')],
           Elem Div [] (map station_entry4 (map station_named
             [''A'', ''B'', ''C'', ''D'', ''E'']))]]
   \<and> texts_list (station_lines (station_named ''A''))
     = [32, 8226, 32] @ str ''Lines: 1, 7''
   \<and> texts (station_entry4 (station_named ''A''))
     = str ''Ametro'' @ [32, 8226, 32] @ str ''Lines: 1, 73 min walk''"
proof -
  have a: "result (initial\<lparr>result := Report \<lparr>geo_data = None, analysis = None,
       transport = Some \<lparr>connectivity_score = Undefined, landmark_travel_times = None,
         nearby_stations = Some (map station_named
           [''A'', ''B'', ''C'', ''D'', ''E'', ''F'', ''G'', ''H''])\<rparr>\<rparr>\<rparr>)
     = Report \<lparr>geo_data = None, analysis = None,
       transport = Some \<lparr>connectivity_score = Undefined, landmark_travel_times = None,
         nearby_stations = Some (map station_named
           [''A'', ''B'', ''C'', ''D'', ''E'', ''F'', ''G'', ''H''])\<rparr>\<rparr>"
    by simp
  have b: "transport \<lparr>geo_data = None, analysis = None,
       transport = Some \<lparr>connectivity_score = Undefined, landmark_travel_times = None,
         nearby_stations = Some (map station_named
           [''A'', ''B'', ''C'', ''D'', ''E'', ''F'', ''G'', ''H''])\<rparr>\<rparr>
     = Some \<lparr>connectivity_score = Undefined, landmark_travel_times = None,
         nearby_stations = Some (map station_named
           [''A'', ''B'', ''C'', ''D'', ''E'', ''F'', ''G'', ''H''])\<rparr>"
    by simp
  have c: "nearby_stations \<lparr>connectivity_score = Undefined, landmark_travel_times = None,
       nearby_stations = Some (map station_named
         [''A'', ''B'', ''C'', ''D'', ''E'', ''F'', ''G'', ''H''])\<rparr>
     = Some (map station_named [''A'', ''B'', ''C'', ''D'', ''E'', ''F'', ''G'', ''H''])"
    by simp
  have d: "map station_named [''A'', ''B'', ''C'', ''D'', ''E'', ''F'', ''G'', ''H''] \<noteq> []"
    by simp
  have e: "lines (station_named ''A'') = Some (map Str (str ''1'' # [str ''7'']))
      \<and> map Str (str ''1'' # [str ''7'']) \<noteq> []"
    by (simp add: station_named_def)
  note t = nearby_stations_first_five [OF a b c d, of "station_named ''A''"
      "map Str (str ''1'' # [str ''7''])" "str ''1''" "[str ''7'']"]
  from t have "stations_block4 \<lparr>connectivity_score = Undefined, landmark_travel_times = None,
       nearby_stations = Some (map station_named
         [''A'', ''B'', ''C'', ''D'', ''E'', ''F'', ''G'', ''H''])\<rparr>
     = [Elem Div []
          [Elem H3 [] [Text (str ''Nearby Stations'')],
           Elem P [] [Text (str ''Within walking distance'')],
           Elem Div [] (map station_entry4 (take 5 (map station_named
             [''A'', ''B'', ''C'', ''D'', ''E'', ''F'', ''G'', ''H''])))]]"
    by blast
  then have f: "stations_block4 \<lparr>connectivity_score = Undefined, landmark_travel_times = None,
       nearby_stations = Some (map station_named
         [''A'', ''B'', ''C'', ''D'', ''E'', ''F'', ''G'', ''H''])\<rparr>
     = [Elem Div []
          [Elem H3 [] [Text (str ''Nearby Stations'')],
           Elem P [] [Text (str ''Within walking distance'')],
           Elem Div [] (map station_entry4 (map station_named
             [''A'', ''B'', ''C'', ''D'', ''E'']))]]"
    by simp
  from t e have g: "texts_list (station_lines (station_named ''A''))
     = [32, 8226, 32] @ str ''Lines: '' @ join (str '', '') (map Str (str ''1'' # [str ''7'']))"
    by blast
  from t have h: "join (str '', '') (map Str (str ''1'' # [str ''7'']))
      = str ''1'' @ concat (map (\<lambda>m. str '', '' @ m) [str ''7''])"
    by blast
  from g h have g': "texts_list (station_lines (station_named ''A''))
     = [32, 8226, 32] @ str ''Lines: 1, 7''"
    by (simp add: str_def del: join.simps)
  from t have "texts (station_entry4 (station_named ''A''))
             = texts_list (child (name (station_named ''A'')))
               @ texts_list (child (transport_type (station_named ''A'')))
               @ texts_list (station_lines (station_named ''A''))
               @ texts_list (child (walk_time_minutes (station_named ''A'')))
               @ str '' min walk''"
    by simp
  with g' have "texts (station_entry4 (station_named ''A''))
     = str ''Ametro'' @ [32, 8226, 32] @ str ''Lines: 1, 73 min walk''"
    by (simp add: station_named_def number_to_string_small digits_small str_def)
  with f g' show ?thesis by blast
qed

section \<open>Landmarks\<close>

lemma texts_landmark_entry4:
  "texts (landmark_entry4 l) = texts_list (child (landmark l)) @ texts_list (child (time l))"
  by (simp add: landmark_entry4_def Let_def)

lemma texts_landmark_entry1:
  "texts (landmark_entry1 l) = texts_list (child (landmark l)) @ texts_list (child (time l))"
  by (simp add: landmark_entry1_def)

lemma srcs_alt_attr [simp]: "srcs (alt_attr v) = []"
  by (cases v) simp_all

lemma images_landmark_entry4:
  "images (landmark_entry4 l)
     = [str ''/landmarks/'' @ icon_to_string (icon_lookup (landmark l)) @ str ''.png'']"
  by (simp add: landmark_entry4_def Let_def)

lemma images_landmark_entry1: "images (landmark_entry1 l) = []"
  by (simp add: landmark_entry1_def)

lemma iconMap_keys: "length iconMap = 6 \<and> distinct (map fst iconMap)"
  by (simp add: iconMap_def str_def)

text \<open>None of the names every object inherits is a landmark of \<open>iconMap\<close>.\<close>

lemma inherited_not_own: "k \<in> set object_prototype_names \<Longrightarrow> map_of iconMap k = None"
  by (auto simp: object_prototype_names_def iconMap_def str_def)

lemma inherited_not_undefined: "icon_to_string (Inherited k) \<noteq> str ''undefined''"
  by (simp add: str_def)

lemma images_landmarks_block4:
  "landmark_travel_times t = Some ls \<Longrightarrow>
   images_list (landmarks_block4 t)
     = map (\<lambda>l. str ''/landmarks/'' @ icon_to_string (icon_lookup (landmark l)) @ str ''.png'')
         ls"
  by (simp add: landmarks_block4_def images_list_map images_landmark_entry4)

lemma images_transport_section1 [simp]: "images_list (transport_section1 topt) = []"
  by (simp add: transport_section1_def landmarks_block1_def images_list_map
      images_landmark_entry1 split: option.splits)

lemma landmarks_in_Home4:
  assumes "result s = Report r" and "transport r = Some t"
  shows "sublist (texts_list (landmarks_block4 t)) (texts (Home4 s))"
proof -
  from assms have "texts (Home4 s) =
      (texts_list (error_banner s) @ texts (arrondissement_column r) @ str ''Full address''
       @ texts_list (child (geo_full_address r)) @ texts_list (character4 (analysis r))
       @ texts_list (word_of_mouth4 (analysis r)) @ texts_list (ratings_section (analysis r)))
      @ texts_list (landmarks_block4 t)
      @ (texts_list (stations_block4 t) @ str ''Search Another Address'')"
    by (simp add: texts_Home4_report texts_report4_split transport_section4_def)
  then show ?thesis by (simp only: sublist_appendI)
qed

lemma landmarks_in_Home1:
  assumes "result s = Report r" and "transport r = Some t"
  shows "sublist (texts_list (landmarks_block1 t)) (texts (Home1 s))"
proof -
  from assms have "texts (Home1 s) =
      (texts_list (error_banner s) @ texts (arrondissement_column r) @ str ''Full address:''
       @ texts_list (child (geo_full_address r)) @ texts_list (character1 (analysis r))
       @ texts_list (word_of_mouth1 (analysis r)) @ texts_list (ratings_section (analysis r)))
      @ texts_list (landmarks_block1 t)
      @ (texts_list (stations_block1 t) @ str ''Search Another Address'')"
    by (simp add: texts_Home1_report texts_report1_split transport_section1_def)
  then show ?thesis by (simp only: sublist_appendI)
qed

text \<open>
  Claim C8, as amended. An entry of the landmark block shows the landmark's name and its
  time, whatever the name is, and the block with its entries, in their order, is part of
  the page. On the fourth page an entry also always holds an image, and these images are
  the last of the page. The source of the image is \<open>/landmarks/<icon>.png\<close>: the icon
  of the name when it is one of the six names of \<open>iconMap\<close>; for a name that is none of
  the six, \<open>undefined\<close>, so that the image refers to \<open>/landmarks/undefined.png\<close>,
  unless the name is one of the twelve names of a property that every object inherits
  (\<open>constructor\<close>, \<open>toString\<close> and so on), where the source is built from the text of
  the inherited value and is not \<open>/landmarks/undefined.png\<close>. On the first page an
  entry holds no image, and the page shows none for the landmarks. The block of the
  fourth page is rendered when \<open>landmark_travel_times\<close> is present, empty or not, and
  not when it is missing.
\<close>

theorem landmark_icons:
  "texts (landmark_entry4 l) = texts_list (child (landmark l)) @ texts_list (child (time l))
   \<and> texts (landmark_entry1 l) = texts_list (child (landmark l)) @ texts_list (child (time l))
   \<and> images (landmark_entry4 l)
       = [str ''/landmarks/'' @ icon_to_string (icon_lookup (landmark l)) @ str ''.png'']
   \<and> images (landmark_entry1 l) = []
   \<and> length iconMap = 6 \<and> distinct (map fst iconMap)
   \<and> (map_of iconMap (to_string (landmark l)) = Some i \<longrightarrow>
        images (landmark_entry4 l) = [str ''/landmarks/'' @ i @ str ''.png''])
   \<and> (to_string (landmark l) \<notin> set (map fst iconMap)
       \<and> to_string (landmark l) \<notin> set object_prototype_names \<longrightarrow>
        images (landmark_entry4 l) = [str ''/landmarks/undefined.png''])
   \<and> (to_string (landmark l) \<in> set object_prototype_names \<longrightarrow>
        to_string (landmark l) \<notin> set (map fst iconMap)
        \<and> images (landmark_entry4 l)
            = [str ''/landmarks/'' @ icon_to_string (Inherited (to_string (landmark l)))
               @ str ''.png'']
        \<and> images (landmark_entry4 l) \<noteq> [str ''/landmarks/undefined.png''])
   \<and> (landmark_travel_times t = None \<longrightarrow> landmarks_block4 t = [])
   \<and> (landmark_travel_times t = Some ls \<longrightarrow>
        landmarks_block4 t
          = [Elem Div []
               [Elem H3 [] [Text (str ''Travel Times to Landmarks'')],
                Elem P [] [Text (str ''Public transport from your address'')],
                Elem Div [] (map landmark_entry4 ls)]]
        \<and> texts_list (landmarks_block4 t)
            = str ''Travel Times to Landmarks'' @ str ''Public transport from your address''
              @ concat (map (\<lambda>l. texts (landmark_entry4 l)) ls)
        \<and> texts_list (landmarks_block1 t)
            = str ''Travel Times to Landmarks''
              @ concat (map (\<lambda>l. texts (landmark_entry1 l)) ls))
   \<and> (result s = Report r \<and> transport r = Some t \<longrightarrow>
        sublist (texts_list (landmarks_block4 t)) (texts (Home4 s))
        \<and> sublist (texts_list (landmarks_block1 t)) (texts (Home1 s))
        \<and> images (Home1 s)
            = str ''/chez_stamp.png'' # images (arrondissement_column r)
              @ images_list (ratings_section (analysis r)))
   \<and> (result s = Report r \<and> transport r = Some t \<and> landmark_travel_times t = Some ls \<longrightarrow>
        images (Home4 s)
          = str ''/chez_stamp.png'' # images (arrondissement_column r)
            @ images_list (ratings_section (analysis r))
            @ map (\<lambda>l. str ''/landmarks/'' @ icon_to_string (icon_lookup (landmark l))
                        @ str ''.png'') ls)"
proof -
  have a: "images (landmark_entry4 l) = [str ''/landmarks/'' @ i @ str ''.png'']"
    if "map_of iconMap (to_string (landmark l)) = Some i"
    using that by (simp add: images_landmark_entry4 icon_lookup_def)
  have b: "images (landmark_entry4 l) = [str ''/landmarks/undefined.png'']"
    if "to_string (landmark l) \<notin> set (map fst iconMap)
       \<and> to_string (landmark l) \<notin> set object_prototype_names"
  proof -
    from that have "map_of iconMap (to_string (landmark l)) = None"
      by (simp add: map_of_eq_None_iff)
    with that show ?thesis
      by (simp add: images_landmark_entry4 icon_lookup_def str_def)
  qed
  have c: "to_string (landmark l) \<notin> set (map fst iconMap)
        \<and> images (landmark_entry4 l)
            = [str ''/landmarks/'' @ icon_to_string (Inherited (to_string (landmark l)))
               @ str ''.png'']
        \<and> images (landmark_entry4 l) \<noteq> [str ''/landmarks/undefined.png'']"
    if "to_string (landmark l) \<in> set object_prototype_names"
  proof -
    from that have n: "map_of iconMap (to_string (landmark l)) = None"
      by (rule inherited_not_own)
    then have "to_string (landmark l) \<notin> set (map fst iconMap)"
      by (simp add: map_of_eq_None_iff)
    moreover from n that have e: "images (landmark_entry4 l)
            = [str ''/landmarks/'' @ icon_to_string (Inherited (to_string (landmark l)))
               @ str ''.png'']"
      by (simp add: images_landmark_entry4 icon_lookup_def)
    moreover have "str ''/landmarks/'' @ icon_to_string (Inherited (to_string (landmark l)))
               @ str ''.png'' \<noteq> str ''/landmarks/'' @ str ''undefined'' @ str ''.png''"
      using inherited_not_undefined [of "to_string (landmark l)"] by simp
    then have "images (landmark_entry4 l) \<noteq> [str ''/landmarks/undefined.png'']"
      using e by (simp add: str_def)
    ultimately show ?thesis by blast
  qed
  have d: "landmarks_block4 t = []" if "landmark_travel_times t = None"
    using that by (simp add: landmarks_block4_def)
  have e: "landmarks_block4 t
          = [Elem Div []
               [Elem H3 [] [Text (str ''Travel Times to Landmarks'')],
                Elem P [] [Text (str ''Public transport from your address'')],
                Elem Div [] (map landmark_entry4 ls)]]
        \<and> texts_list (landmarks_block4 t)
            = str ''Travel Times to Landmarks'' @ str ''Public transport from your address''
              @ concat (map (\<lambda>l. texts (landmark_entry4 l)) ls)
        \<and> texts_list (landmarks_block1 t)
            = str ''Travel Times to Landmarks''
              @ concat (map (\<lambda>l. texts (landmark_entry1 l)) ls)"
    if "landmark_travel_times t = Some ls"
    using that by (simp add: landmarks_block4_def landmarks_block1_def texts_list_map)
  have f: "sublist (texts_list (landmarks_block4 t)) (texts (Home4 s))
        \<and> sublist (texts_list (landmarks_block1 t)) (texts (Home1 s))
        \<and> images (Home1 s)
            = str ''/chez_stamp.png'' # images (arrondissement_column r)
              @ images_list (ratings_section (analysis r))"
    if "result s = Report r \<and> transport r = Some t"
    using that landmarks_in_Home4 [of s r t] landmarks_in_Home1 [of s r t]
    by (simp add: images_Home1_report images_report1_split)
  have g: "images (Home4 s)
          = str ''/chez_stamp.png'' # images (arrondissement_column r)
            @ images_list (ratings_section (analysis r))
            @ map (\<lambda>l. str ''/landmarks/'' @ icon_to_string (icon_lookup (landmark l))
                        @ str ''.png'') ls"
    if "result s = Report r \<and> transport r = Some t \<and> landmark_travel_times t = Some ls"
    using that
    by (simp add: images_Home4_report images_report4_split transport_section4_def
        images_landmarks_block4)
  from a b c d e f g texts_landmark_entry4 [of l] texts_landmark_entry1 [of l]
    images_landmark_entry4 [of l] images_landmark_entry1 [of l] iconMap_keys
  show ?thesis by blast
qed

theorem landmark_icons_witness:
  "images (landmark_entry4 \<lparr>landmark = Str (str ''Louvre''), time = Str (str ''12 min'')\<rparr>)
     = [str ''/landmarks/louvre.png'']
   \<and> texts (landmark_entry4 \<lparr>landmark = Str (str ''Louvre''), time = Str (str ''12 min'')\<rparr>)
     = str ''Louvre12 min''"
proof -
  have "map_of iconMap
      (to_string (landmark \<lparr>landmark = Str (str ''Louvre''), time = Str (str ''12 min'')\<rparr>))
    = Some (str ''louvre'')"
    by (simp add: iconMap_def str_def)
  with landmark_icons
    [of "\<lparr>landmark = Str (str ''Louvre''), time = Str (str ''12 min'')\<rparr>" "str ''louvre''"]
  have "images (landmark_entry4 \<lparr>landmark = Str (str ''Louvre''), time = Str (str ''12 min'')\<rparr>)
     = [str ''/landmarks/'' @ str ''louvre'' @ str ''.png'']
   \<and> texts (landmark_entry4 \<lparr>landmark = Str (str ''Louvre''), time = Str (str ''12 min'')\<rparr>)
     = texts_list (child (landmark \<lparr>landmark = Str (str ''Louvre''), time = Str (str ''12 min'')\<rparr>))
       @ texts_list (child (time \<lparr>landmark = Str (str ''Louvre''), time = Str (str ''12 min'')\<rparr>))"
    by blast
  then show ?thesis by (simp add: str_def)
qed

text \<open>
  Claim C8 as stated fails where it says that an unknown landmark omits the icon: the
  entry of "Pantheon" holds the image \<open>/landmarks/undefined.png\<close>. And an empty sequence
  still renders the block, with its heading.
\<close>

theorem unknown_landmark_keeps_image:
  "images (landmark_entry4 \<lparr>landmark = Str (str ''Pantheon''), time = Str (str ''12 min'')\<rparr>)
     = [str ''/landmarks/undefined.png'']
   \<and> texts (landmark_entry4 \<lparr>landmark = Str (str ''Pantheon''), time = Str (str ''12 min'')\<rparr>)
     = str ''Pantheon12 min''
   \<and> landmarks_block4 \<lparr>connectivity_score = Undefined, landmark_travel_times = Some [],
        nearby_stations = None\<rparr>
     = [Elem Div []
          [Elem H3 [] [Text (str ''Travel Times to Landmarks'')],
           Elem P [] [Text (str ''Public transport from your address'')],
           Elem Div [] []]]"
  by (simp add: landmark_entry4_def Let_def icon_lookup_def iconMap_def
      object_prototype_names_def landmarks_block4_def str_def)

end
